theory Spec2Isabelle
  imports Main "HOL-Library.Sublist"
begin

section \<open>JavaScript values\<close>

text \<open>
  The argument bag of a tool call is decoded JSON, and the dispatcher casts its fields
  without checking them, so a field can hold any JSON value or be missing. The numbers
  are an abstract type \<open>'n\<close>: how a number prints is the runtime's business.
\<close>

datatype 'n jsvalue =
    JUndefined
  | JNull
  | JBool bool
  | JNum 'n
  | JStr string
  | JArr "'n jsvalue list"
  | JObj "(string \<times> 'n jsvalue) list"

text \<open>Decimal digits of a natural number, for the status code of a response.\<close>

fun show_nat :: "nat \<Rightarrow> string" where
  "show_nat n =
     (if n < 10 then [''0123456789'' ! n]
      else show_nat (n div 10) @ [''0123456789'' ! (n mod 10)])"

declare show_nat.simps [simp del]

text \<open>
  A configuration field or a prompt argument is a string or undefined. Truthiness of such
  a value: undefined and the empty string are falsy. \<open>interpolate\<close> is what a template
  literal makes of it.
\<close>

fun truthy :: "string option \<Rightarrow> bool" where
  "truthy None = False"
| "truthy (Some s) = (s \<noteq> [])"

fun interpolate :: "string option \<Rightarrow> string" where
  "interpolate None = ''undefined''"
| "interpolate (Some s) = s"

section \<open>HTTP requests and the runtime\<close>

datatype http_method = GET | POST

text \<open>What one call of \<open>fetch\<close> is given: the URL string and the options.\<close>

record request =
  req_method :: http_method
  req_url :: string
  req_headers :: "string \<rightharpoonup> string"
  req_body :: "string option"

datatype fetch_outcome =
    NetworkFailure string
  | Response nat string

text \<open>
  The calls that the program makes into the URL library and the network, in the order
  it makes them: the construction of a URL from a string, the appending of one entry to
  the search parameters of that URL, and a \<open>fetch\<close>.
\<close>

datatype event =
    NewURL string
  | SearchParamsAppend string string
  | Fetch request

text \<open>
  The parts of the JavaScript runtime and of the network that the program calls and does
  not define. URL objects are an abstract type \<open>'u\<close> and parsed JSON an abstract type
  \<open>'j\<close>.
  \<^item> \<open>Number_toString\<close> prints a number;
  \<^item> \<open>to_primitive_error\<close> is the message of the TypeError thrown when an object cannot
    be converted to a string;
  \<^item> \<open>new_URL\<close> parses a string into a URL object or throws a TypeError with the given
    message (\<open>Inl\<close>);
  \<^item> \<open>searchParams_append\<close> is \<open>url.searchParams.append(key, value)\<close>, and
    \<open>URL_toString\<close> serializes the URL object;
  \<^item> \<open>fetch\<close> either rejects with a message or yields a response with its status and
    body text;
  \<^item> \<open>response_json\<close> parses a body or fails with the SyntaxError's message;
  \<^item> \<open>undefined_read k\<close> is the message of the TypeError thrown when property \<open>k\<close> is
    read from undefined.
\<close>

record ('j, 'u, 'n) runtime =
  Number_toString :: "'n \<Rightarrow> string"
  to_primitive_error :: string
  new_URL :: "string \<Rightarrow> string + 'u"
  searchParams_append :: "'u \<Rightarrow> string \<Rightarrow> string \<Rightarrow> 'u"
  URL_toString :: "'u \<Rightarrow> string"
  fetch :: "request \<Rightarrow> fetch_outcome"
  response_json :: "string \<Rightarrow> string + 'j"
  JSON_stringify :: "'j \<Rightarrow> string"
  JSON_stringify_indent2 :: "'j \<Rightarrow> string"
  json_truthy :: "'j \<Rightarrow> bool"
  undefined_read :: "string \<Rightarrow> string"

text \<open>
  \<open>String(v)\<close>, which is also what a template literal applies to an interpolated value;
  \<open>Inl\<close> is the message of the TypeError it throws. An array is joined with commas,
  its undefined and null elements printing as nothing. An object prints as
  \<open>[object Object]\<close> unless it has a property \<open>toString\<close> of its own, which in decoded
  JSON is never callable, so that the conversion throws.
\<close>

fun js_String :: "('j, 'u, 'n) runtime \<Rightarrow> 'n jsvalue \<Rightarrow> string + string"
  and js_join :: "('j, 'u, 'n) runtime \<Rightarrow> 'n jsvalue list \<Rightarrow> string + string" where
  "js_String rt JUndefined = Inr ''undefined''"
| "js_String rt JNull = Inr ''null''"
| "js_String rt (JBool b) = Inr (if b then ''true'' else ''false'')"
| "js_String rt (JNum n) = Inr (Number_toString rt n)"
| "js_String rt (JStr s) = Inr s"
| "js_String rt (JArr xs) = js_join rt xs"
| "js_String rt (JObj kvs) =
     (if ''toString'' \<in> fst ` set kvs then Inl (to_primitive_error rt)
      else Inr ''[object Object]'')"
| "js_join rt [] = Inr []"
| "js_join rt (x # xs) =
     (case (if x = JUndefined \<or> x = JNull then Inr [] else js_String rt x) of
        Inl msg \<Rightarrow> Inl msg
      | Inr s \<Rightarrow>
          (if xs = [] then Inr s
           else case js_join rt xs of
                  Inl msg \<Rightarrow> Inl msg
                | Inr t \<Rightarrow> Inr (s @ '','' @ t)))"

text \<open>
  The outcome of an asynchronous call: the library calls it made, in order, and either
  the message of the error it rejected with (\<open>Inl\<close>) or the value it resolved to.
\<close>

type_synonym 'j outcome = "event list \<times> (string + 'j)"

text \<open>The requests in a sequence of calls, and the search-parameter entries appended.\<close>

fun requests :: "event list \<Rightarrow> request list" where
  "requests [] = []"
| "requests (Fetch r # es) = r # requests es"
| "requests (e # es) = requests es"

fun appended :: "event list \<Rightarrow> (string \<times> string) list" where
  "appended [] = []"
| "appended (SearchParamsAppend k s # es) = (k, s) # appended es"
| "appended (e # es) = appended es"

fun constructed :: "event list \<Rightarrow> string list" where
  "constructed [] = []"
| "constructed (NewURL s # es) = s # constructed es"
| "constructed (e # es) = constructed es"

section \<open>The API client\<close>

record ApiClientConfig =
  baseUrl :: string
  apiKey :: "string option"
  jwtToken :: "string option"
  oryUserId :: "string option"
  oryUserEmail :: "string option"
  oryUserRole :: "string option"

record client =
  client_baseUrl :: string
  client_headers :: "string \<rightharpoonup> string"

text \<open>\<open>s.replace(/\/$/, '')\<close>: one trailing slash is removed.\<close>

definition strip_trailing_slash :: "string \<Rightarrow> string" where
  "strip_trailing_slash s = (if s \<noteq> [] \<and> last s = CHR ''/'' then butlast s else s)"

definition json_headers :: "string \<rightharpoonup> string" where
  "json_headers =
     [''Content-Type'' \<mapsto> ''application/json'', ''Accept'' \<mapsto> ''application/json'']"

text \<open>The constructor of \<open>OsintApiClient\<close>.\<close>

definition OsintApiClient :: "ApiClientConfig \<Rightarrow> client" where
  "OsintApiClient config =
     \<lparr> client_baseUrl = strip_trailing_slash (baseUrl config),
       client_headers =
         (if truthy (jwtToken config) then
            json_headers(''Authorization'' \<mapsto> ''Bearer '' @ interpolate (jwtToken config))
          else if truthy (apiKey config) then
            json_headers(''Authorization'' \<mapsto> ''Bearer '' @ interpolate (apiKey config))
          else if truthy (oryUserId config) then
            (let h1 = json_headers(''X-User-ID'' := oryUserId config);
                 h2 = (if truthy (oryUserEmail config)
                       then h1(''X-User-Email'' := oryUserEmail config) else h1)
             in if truthy (oryUserRole config)
                then h2(''X-User-Role'' := oryUserRole config) else h2)
          else json_headers) \<rparr>"

text \<open>
  The loop of \<open>get\<close> over \<open>Object.entries(params)\<close>: an entry is appended to the
  search parameters of the URL unless its value is undefined or null. The loop stops
  where \<open>String\<close> throws.
\<close>

fun append_params ::
  "('j, 'u, 'n) runtime \<Rightarrow> 'u \<Rightarrow> (string \<times> 'n jsvalue) list \<Rightarrow> event list \<times> (string + 'u)" where
  "append_params rt url [] = ([], Inr url)"
| "append_params rt url ((key, val) # rest) =
     (if val \<noteq> JUndefined \<and> val \<noteq> JNull then
        (case js_String rt val of
           Inl msg \<Rightarrow> ([], Inl msg)
         | Inr s \<Rightarrow>
             (case append_params rt (searchParams_append rt url key s) rest of
                (evs, r) \<Rightarrow> (SearchParamsAppend key s # evs, r)))
      else append_params rt url rest)"

definition response_ok :: "nat \<Rightarrow> bool" where
  "response_ok status = (200 \<le> status \<and> status \<le> 299)"

text \<open>
  The part of \<open>get\<close> before the \<open>fetch\<close>: the URL is constructed from
  \<open>baseUrl + endpoint\<close>, the parameters are appended, and the request is for the
  serialized URL. \<open>Inl\<close> when the constructor or a conversion throws.
\<close>

definition get_request ::
  "('j, 'u, 'n) runtime \<Rightarrow> client \<Rightarrow> string \<Rightarrow> (string \<times> 'n jsvalue) list option \<Rightarrow>
     event list \<times> (string + request)" where
  "get_request rt this endpoint params =
     (case new_URL rt (client_baseUrl this @ endpoint) of
        Inl msg \<Rightarrow> ([NewURL (client_baseUrl this @ endpoint)], Inl msg)
      | Inr url \<Rightarrow>
          (case (case params of None \<Rightarrow> ([], Inr url) | Some ps \<Rightarrow> append_params rt url ps) of
             (evs, Inl msg) \<Rightarrow> (NewURL (client_baseUrl this @ endpoint) # evs, Inl msg)
           | (evs, Inr url') \<Rightarrow>
               (NewURL (client_baseUrl this @ endpoint) # evs,
                Inr \<lparr> req_method = GET,
                      req_url = URL_toString rt url',
                      req_headers = client_headers this,
                      req_body = None \<rparr>)))"

definition get ::
  "('j, 'u, 'n) runtime \<Rightarrow> client \<Rightarrow> string \<Rightarrow> (string \<times> 'n jsvalue) list option \<Rightarrow>
     'j outcome" where
  "get rt this endpoint params =
     (case get_request rt this endpoint params of
        (evs, Inl msg) \<Rightarrow> (evs, Inl msg)
      | (evs, Inr request) \<Rightarrow>
          (case fetch rt request of
             NetworkFailure msg \<Rightarrow> (evs @ [Fetch request], Inl msg)
           | Response status body_text \<Rightarrow>
               if \<not> response_ok status
               then (evs @ [Fetch request],
                     Inl (''API Error '' @ show_nat status @ '': '' @ body_text))
               else (evs @ [Fetch request], response_json rt body_text)))"

definition post_request :: "('j, 'u, 'n) runtime \<Rightarrow> client \<Rightarrow> string \<Rightarrow> 'j option \<Rightarrow> request" where
  "post_request rt this endpoint body =
     \<lparr> req_method = POST,
       req_url = client_baseUrl this @ endpoint,
       req_headers = client_headers this,
       req_body =
         (case body of
            None \<Rightarrow> None
          | Some b \<Rightarrow> if json_truthy rt b then Some (JSON_stringify rt b) else None) \<rparr>"

definition post :: "('j, 'u, 'n) runtime \<Rightarrow> client \<Rightarrow> string \<Rightarrow> 'j option \<Rightarrow> 'j outcome" where
  "post rt this endpoint body =
     (let request = post_request rt this endpoint body in
      case fetch rt request of
        NetworkFailure msg \<Rightarrow> ([Fetch request], Inl msg)
      | Response status body_text \<Rightarrow>
          if \<not> response_ok status
          then ([Fetch request], Inl (''API Error '' @ show_nat status @ '': '' @ body_text))
          else ([Fetch request], response_json rt body_text))"

text \<open>
  The interpolation of a value into the template literal of an endpoint path: the call
  rejects where the conversion throws.
\<close>

definition interp ::
  "('j, 'u, 'n) runtime \<Rightarrow> 'n jsvalue \<Rightarrow> (string \<Rightarrow> 'j outcome) \<Rightarrow> 'j outcome" where
  "interp rt v k = (case js_String rt v of Inl msg \<Rightarrow> ([], Inl msg) | Inr s \<Rightarrow> k s)"

text \<open>The methods of the client, one per remote endpoint.\<close>

definition searchMessages :: "('j, 'u, 'n) runtime \<Rightarrow> client \<Rightarrow> (string \<times> 'n jsvalue) list \<Rightarrow> 'j outcome" where
  "searchMessages rt this params =
     get rt this (''/api/messages'') (Some params)"

definition getMessage :: "('j, 'u, 'n) runtime \<Rightarrow> client \<Rightarrow> 'n jsvalue \<Rightarrow> 'j outcome" where
  "getMessage rt this messageId =
     interp rt messageId (\<lambda>messageId_str.
       get rt this (''/api/messages/'' @ messageId_str) None)"

definition getAdjacentMessages :: "('j, 'u, 'n) runtime \<Rightarrow> client \<Rightarrow> 'n jsvalue \<Rightarrow> 'j outcome" where
  "getAdjacentMessages rt this messageId =
     interp rt messageId (\<lambda>messageId_str.
       get rt this (''/api/messages/'' @ messageId_str @ ''/adjacent'') None)"

definition getMessageAlbum :: "('j, 'u, 'n) runtime \<Rightarrow> client \<Rightarrow> 'n jsvalue \<Rightarrow> 'j outcome" where
  "getMessageAlbum rt this messageId =
     interp rt messageId (\<lambda>messageId_str.
       get rt this (''/api/messages/'' @ messageId_str @ ''/album'') None)"

definition getMessageNetwork :: "('j, 'u, 'n) runtime \<Rightarrow> client \<Rightarrow> 'n jsvalue \<Rightarrow> (string \<times> 'n jsvalue) list option \<Rightarrow> 'j outcome" where
  "getMessageNetwork rt this messageId params =
     interp rt messageId (\<lambda>messageId_str.
       get rt this (''/api/messages/'' @ messageId_str @ ''/network'') params)"

definition getMessageTimeline :: "('j, 'u, 'n) runtime \<Rightarrow> client \<Rightarrow> 'n jsvalue \<Rightarrow> (string \<times> 'n jsvalue) list option \<Rightarrow> 'j outcome" where
  "getMessageTimeline rt this messageId params =
     interp rt messageId (\<lambda>messageId_str.
       get rt this (''/api/messages/'' @ messageId_str @ ''/timeline'') params)"

definition semanticSearch :: "('j, 'u, 'n) runtime \<Rightarrow> client \<Rightarrow> (string \<times> 'n jsvalue) list \<Rightarrow> 'j outcome" where
  "semanticSearch rt this params =
     get rt this (''/api/semantic/search'') (Some params)"

definition findSimilarMessages :: "('j, 'u, 'n) runtime \<Rightarrow> client \<Rightarrow> 'n jsvalue \<Rightarrow> (string \<times> 'n jsvalue) list option \<Rightarrow> 'j outcome" where
  "findSimilarMessages rt this messageId params =
     interp rt messageId (\<lambda>messageId_str.
       get rt this (''/api/semantic/similar/'' @ messageId_str) params)"

definition getTags :: "('j, 'u, 'n) runtime \<Rightarrow> client \<Rightarrow> (string \<times> 'n jsvalue) list option \<Rightarrow> 'j outcome" where
  "getTags rt this params =
     get rt this (''/api/semantic/tags'') params"

definition searchByTags :: "('j, 'u, 'n) runtime \<Rightarrow> client \<Rightarrow> (string \<times> 'n jsvalue) list \<Rightarrow> 'j outcome" where
  "searchByTags rt this params =
     get rt this (''/api/semantic/tags/search'') (Some params)"

definition unifiedSearch :: "('j, 'u, 'n) runtime \<Rightarrow> client \<Rightarrow> (string \<times> 'n jsvalue) list \<Rightarrow> 'j outcome" where
  "unifiedSearch rt this params =
     get rt this (''/api/search'') (Some params)"

definition listChannels :: "('j, 'u, 'n) runtime \<Rightarrow> client \<Rightarrow> (string \<times> 'n jsvalue) list option \<Rightarrow> 'j outcome" where
  "listChannels rt this params =
     get rt this (''/api/channels'') params"

definition getChannel :: "('j, 'u, 'n) runtime \<Rightarrow> client \<Rightarrow> 'n jsvalue \<Rightarrow> 'j outcome" where
  "getChannel rt this channelId =
     interp rt channelId (\<lambda>channelId_str.
       get rt this (''/api/channels/'' @ channelId_str) None)"

definition getChannelStats :: "('j, 'u, 'n) runtime \<Rightarrow> client \<Rightarrow> 'n jsvalue \<Rightarrow> 'j outcome" where
  "getChannelStats rt this channelId =
     interp rt channelId (\<lambda>channelId_str.
       get rt this (''/api/channels/'' @ channelId_str @ ''/stats'') None)"

definition getChannelNetwork :: "('j, 'u, 'n) runtime \<Rightarrow> client \<Rightarrow> 'n jsvalue \<Rightarrow> (string \<times> 'n jsvalue) list option \<Rightarrow> 'j outcome" where
  "getChannelNetwork rt this channelId params =
     interp rt channelId (\<lambda>channelId_str.
       get rt this (''/api/channels/'' @ channelId_str @ ''/network'') params)"

definition getMessageSocialGraph :: "('j, 'u, 'n) runtime \<Rightarrow> client \<Rightarrow> 'n jsvalue \<Rightarrow> (string \<times> 'n jsvalue) list option \<Rightarrow> 'j outcome" where
  "getMessageSocialGraph rt this messageId params =
     interp rt messageId (\<lambda>messageId_str.
       get rt this (''/api/social-graph/messages/'' @ messageId_str) params)"

definition getChannelInfluence :: "('j, 'u, 'n) runtime \<Rightarrow> client \<Rightarrow> 'n jsvalue \<Rightarrow> 'j outcome" where
  "getChannelInfluence rt this channelId =
     interp rt channelId (\<lambda>channelId_str.
       get rt this (''/api/social-graph/channels/'' @ channelId_str @ ''/influence'') None)"

definition getInfluenceNetwork :: "('j, 'u, 'n) runtime \<Rightarrow> client \<Rightarrow> (string \<times> 'n jsvalue) list option \<Rightarrow> 'j outcome" where
  "getInfluenceNetwork rt this params =
     get rt this (''/api/social-graph/influence-network'') params"

definition getEngagementTimeline :: "('j, 'u, 'n) runtime \<Rightarrow> client \<Rightarrow> 'n jsvalue \<Rightarrow> 'j outcome" where
  "getEngagementTimeline rt this messageId =
     interp rt messageId (\<lambda>messageId_str.
       get rt this (''/api/social-graph/messages/'' @ messageId_str @ ''/engagement-timeline'') None)"

definition getMessageComments :: "('j, 'u, 'n) runtime \<Rightarrow> client \<Rightarrow> 'n jsvalue \<Rightarrow> (string \<times> 'n jsvalue) list option \<Rightarrow> 'j outcome" where
  "getMessageComments rt this messageId params =
     interp rt messageId (\<lambda>messageId_str.
       get rt this (''/api/social-graph/messages/'' @ messageId_str @ ''/comments'') params)"

definition getTopForwarded :: "('j, 'u, 'n) runtime \<Rightarrow> client \<Rightarrow> (string \<times> 'n jsvalue) list option \<Rightarrow> 'j outcome" where
  "getTopForwarded rt this params =
     get rt this (''/api/social-graph/virality/top-forwarded'') params"

definition getTopInfluencers :: "('j, 'u, 'n) runtime \<Rightarrow> client \<Rightarrow> (string \<times> 'n jsvalue) list option \<Rightarrow> 'j outcome" where
  "getTopInfluencers rt this params =
     get rt this (''/api/social-graph/influencers'') params"

definition searchEntities :: "('j, 'u, 'n) runtime \<Rightarrow> client \<Rightarrow> (string \<times> 'n jsvalue) list \<Rightarrow> 'j outcome" where
  "searchEntities rt this params =
     get rt this (''/api/entities/search'') (Some params)"

definition getEntity :: "('j, 'u, 'n) runtime \<Rightarrow> client \<Rightarrow> 'n jsvalue \<Rightarrow> 'n jsvalue \<Rightarrow> (string \<times> 'n jsvalue) list option \<Rightarrow> 'j outcome" where
  "getEntity rt this source entityId params =
     interp rt source (\<lambda>source_str.
       interp rt entityId (\<lambda>entityId_str.
       get rt this (''/api/entities/'' @ source_str @ ''/'' @ entityId_str) params))"

definition getEntityRelationships :: "('j, 'u, 'n) runtime \<Rightarrow> client \<Rightarrow> 'n jsvalue \<Rightarrow> 'n jsvalue \<Rightarrow> (string \<times> 'n jsvalue) list option \<Rightarrow> 'j outcome" where
  "getEntityRelationships rt this source entityId params =
     interp rt source (\<lambda>source_str.
       interp rt entityId (\<lambda>entityId_str.
       get rt this (''/api/entities/'' @ source_str @ ''/'' @ entityId_str @ ''/relationships'') params))"

definition getEntityMessages :: "('j, 'u, 'n) runtime \<Rightarrow> client \<Rightarrow> 'n jsvalue \<Rightarrow> 'n jsvalue \<Rightarrow> (string \<times> 'n jsvalue) list option \<Rightarrow> 'j outcome" where
  "getEntityMessages rt this source entityId params =
     interp rt source (\<lambda>source_str.
       interp rt entityId (\<lambda>entityId_str.
       get rt this (''/api/entities/'' @ source_str @ ''/'' @ entityId_str @ ''/messages'') params))"

definition listEvents :: "('j, 'u, 'n) runtime \<Rightarrow> client \<Rightarrow> (string \<times> 'n jsvalue) list option \<Rightarrow> 'j outcome" where
  "listEvents rt this params =
     get rt this (''/api/events'') params"

definition getEventStats :: "('j, 'u, 'n) runtime \<Rightarrow> client \<Rightarrow> 'j outcome" where
  "getEventStats rt this =
     get rt this (''/api/events/stats'') None"

definition getEvent :: "('j, 'u, 'n) runtime \<Rightarrow> client \<Rightarrow> 'n jsvalue \<Rightarrow> (string \<times> 'n jsvalue) list option \<Rightarrow> 'j outcome" where
  "getEvent rt this eventId params =
     interp rt eventId (\<lambda>eventId_str.
       get rt this (''/api/events/'' @ eventId_str) params)"

definition getEventTimeline :: "('j, 'u, 'n) runtime \<Rightarrow> client \<Rightarrow> 'n jsvalue \<Rightarrow> 'j outcome" where
  "getEventTimeline rt this eventId =
     interp rt eventId (\<lambda>eventId_str.
       get rt this (''/api/events/'' @ eventId_str @ ''/timeline'') None)"

definition getEventsForMessage :: "('j, 'u, 'n) runtime \<Rightarrow> client \<Rightarrow> 'n jsvalue \<Rightarrow> 'j outcome" where
  "getEventsForMessage rt this messageId =
     interp rt messageId (\<lambda>messageId_str.
       get rt this (''/api/events/message/'' @ messageId_str) None)"

definition getTimelineStats :: "('j, 'u, 'n) runtime \<Rightarrow> client \<Rightarrow> (string \<times> 'n jsvalue) list option \<Rightarrow> 'j outcome" where
  "getTimelineStats rt this params =
     get rt this (''/api/analytics/timeline'') params"

definition getTopicDistribution :: "('j, 'u, 'n) runtime \<Rightarrow> client \<Rightarrow> (string \<times> 'n jsvalue) list option \<Rightarrow> 'j outcome" where
  "getTopicDistribution rt this params =
     get rt this (''/api/analytics/distribution/topics'') params"

definition getLanguageDistribution :: "('j, 'u, 'n) runtime \<Rightarrow> client \<Rightarrow> (string \<times> 'n jsvalue) list option \<Rightarrow> 'j outcome" where
  "getLanguageDistribution rt this params =
     get rt this (''/api/analytics/distribution/languages'') params"

definition getChannelAnalytics :: "('j, 'u, 'n) runtime \<Rightarrow> client \<Rightarrow> (string \<times> 'n jsvalue) list option \<Rightarrow> 'j outcome" where
  "getChannelAnalytics rt this params =
     get rt this (''/api/analytics/channels/activity'') params"

definition getHeatmap :: "('j, 'u, 'n) runtime \<Rightarrow> client \<Rightarrow> (string \<times> 'n jsvalue) list option \<Rightarrow> 'j outcome" where
  "getHeatmap rt this params =
     get rt this (''/api/analytics/heatmap'') params"

definition getEntityAnalytics :: "('j, 'u, 'n) runtime \<Rightarrow> client \<Rightarrow> (string \<times> 'n jsvalue) list option \<Rightarrow> 'j outcome" where
  "getEntityAnalytics rt this params =
     get rt this (''/api/analytics/entities'') params"

definition getMediaAnalytics :: "('j, 'u, 'n) runtime \<Rightarrow> client \<Rightarrow> 'j outcome" where
  "getMediaAnalytics rt this =
     get rt this (''/api/analytics/media'') None"

definition getMapMessages :: "('j, 'u, 'n) runtime \<Rightarrow> client \<Rightarrow> (string \<times> 'n jsvalue) list option \<Rightarrow> 'j outcome" where
  "getMapMessages rt this params =
     get rt this (''/api/map/messages'') params"

definition getMapClusters :: "('j, 'u, 'n) runtime \<Rightarrow> client \<Rightarrow> (string \<times> 'n jsvalue) list option \<Rightarrow> 'j outcome" where
  "getMapClusters rt this params =
     get rt this (''/api/map/clusters'') params"

definition getMapEvents :: "('j, 'u, 'n) runtime \<Rightarrow> client \<Rightarrow> (string \<times> 'n jsvalue) list option \<Rightarrow> 'j outcome" where
  "getMapEvents rt this params =
     get rt this (''/api/map/events'') params"

definition getMapHeatmap :: "('j, 'u, 'n) runtime \<Rightarrow> client \<Rightarrow> (string \<times> 'n jsvalue) list option \<Rightarrow> 'j outcome" where
  "getMapHeatmap rt this params =
     get rt this (''/api/map/heatmap'') params"

definition suggestLocations :: "('j, 'u, 'n) runtime \<Rightarrow> client \<Rightarrow> (string \<times> 'n jsvalue) list \<Rightarrow> 'j outcome" where
  "suggestLocations rt this params =
     get rt this (''/api/map/locations/suggest'') (Some params)"

definition reverseGeocode :: "('j, 'u, 'n) runtime \<Rightarrow> client \<Rightarrow> (string \<times> 'n jsvalue) list \<Rightarrow> 'j outcome" where
  "reverseGeocode rt this params =
     get rt this (''/api/map/locations/reverse'') (Some params)"

definition getUnifiedStream :: "('j, 'u, 'n) runtime \<Rightarrow> client \<Rightarrow> (string \<times> 'n jsvalue) list option \<Rightarrow> 'j outcome" where
  "getUnifiedStream rt this params =
     get rt this (''/api/stream/unified'') params"

definition validateMessage :: "('j, 'u, 'n) runtime \<Rightarrow> client \<Rightarrow> 'n jsvalue \<Rightarrow> 'j outcome" where
  "validateMessage rt this messageId =
     interp rt messageId (\<lambda>messageId_str.
       get rt this (''/api/validation/messages/'' @ messageId_str) None)"

definition getCorrelations :: "('j, 'u, 'n) runtime \<Rightarrow> client \<Rightarrow> 'n jsvalue \<Rightarrow> 'j outcome" where
  "getCorrelations rt this messageId =
     interp rt messageId (\<lambda>messageId_str.
       get rt this (''/api/validation/messages/'' @ messageId_str @ ''/correlations'') None)"

definition getComment :: "('j, 'u, 'n) runtime \<Rightarrow> client \<Rightarrow> 'n jsvalue \<Rightarrow> 'j outcome" where
  "getComment rt this commentId =
     interp rt commentId (\<lambda>commentId_str.
       get rt this (''/api/comments/'' @ commentId_str) None)"

definition translateComment :: "('j, 'u, 'n) runtime \<Rightarrow> client \<Rightarrow> 'n jsvalue \<Rightarrow> 'j outcome" where
  "translateComment rt this commentId =
     interp rt commentId (\<lambda>commentId_str.
       post rt this (''/api/comments/'' @ commentId_str @ ''/translate'') None)"

definition getMediaGallery :: "('j, 'u, 'n) runtime \<Rightarrow> client \<Rightarrow> (string \<times> 'n jsvalue) list option \<Rightarrow> 'j outcome" where
  "getMediaGallery rt this params =
     get rt this (''/api/media/gallery'') params"

definition getAdminDashboard :: "('j, 'u, 'n) runtime \<Rightarrow> client \<Rightarrow> 'j outcome" where
  "getAdminDashboard rt this =
     get rt this (''/api/admin/dashboard'') None"

definition getAdminStatsOverview :: "('j, 'u, 'n) runtime \<Rightarrow> client \<Rightarrow> 'j outcome" where
  "getAdminStatsOverview rt this =
     get rt this (''/api/admin/stats/overview'') None"

definition getAdminStatsQuality :: "('j, 'u, 'n) runtime \<Rightarrow> client \<Rightarrow> 'j outcome" where
  "getAdminStatsQuality rt this =
     get rt this (''/api/admin/stats/quality'') None"

definition getAdminStatsProcessing :: "('j, 'u, 'n) runtime \<Rightarrow> client \<Rightarrow> (string \<times> 'n jsvalue) list option \<Rightarrow> 'j outcome" where
  "getAdminStatsProcessing rt this params =
     get rt this (''/api/admin/stats/processing'') params"

definition getAdminStatsStorage :: "('j, 'u, 'n) runtime \<Rightarrow> client \<Rightarrow> 'j outcome" where
  "getAdminStatsStorage rt this =
     get rt this (''/api/admin/stats/storage'') None"

definition getAdminWorkersStats :: "('j, 'u, 'n) runtime \<Rightarrow> client \<Rightarrow> 'j outcome" where
  "getAdminWorkersStats rt this =
     get rt this (''/api/admin/system/workers/stats'') None"

definition getAdminEnrichmentTasks :: "('j, 'u, 'n) runtime \<Rightarrow> client \<Rightarrow> 'j outcome" where
  "getAdminEnrichmentTasks rt this =
     get rt this (''/api/admin/system/enrichment/tasks'') None"

definition getAdminCacheStats :: "('j, 'u, 'n) runtime \<Rightarrow> client \<Rightarrow> 'j outcome" where
  "getAdminCacheStats rt this =
     get rt this (''/api/admin/system/cache/stats'') None"

definition getAdminAuditStats :: "('j, 'u, 'n) runtime \<Rightarrow> client \<Rightarrow> 'j outcome" where
  "getAdminAuditStats rt this =
     get rt this (''/api/admin/system/audit/stats'') None"

definition getAdminSpamStats :: "('j, 'u, 'n) runtime \<Rightarrow> client \<Rightarrow> 'j outcome" where
  "getAdminSpamStats rt this =
     get rt this (''/api/admin/spam/stats'') None"

definition getAdminChannelsStats :: "('j, 'u, 'n) runtime \<Rightarrow> client \<Rightarrow> 'j outcome" where
  "getAdminChannelsStats rt this =
     get rt this (''/api/admin/channels/stats'') None"

definition getAdminEntitiesStats :: "('j, 'u, 'n) runtime \<Rightarrow> client \<Rightarrow> 'j outcome" where
  "getAdminEntitiesStats rt this =
     get rt this (''/api/admin/entities/stats'') None"

definition getAdminFeedsStats :: "('j, 'u, 'n) runtime \<Rightarrow> client \<Rightarrow> 'j outcome" where
  "getAdminFeedsStats rt this =
     get rt this (''/api/admin/feeds/rss/stats'') None"

definition getAdminPromptsStats :: "('j, 'u, 'n) runtime \<Rightarrow> client \<Rightarrow> 'j outcome" where
  "getAdminPromptsStats rt this =
     get rt this (''/api/admin/prompts/stats'') None"

definition getAdminCommentsStats :: "('j, 'u, 'n) runtime \<Rightarrow> client \<Rightarrow> 'j outcome" where
  "getAdminCommentsStats rt this =
     get rt this (''/api/admin/comments/stats'') None"

definition getAdminViralPosts :: "('j, 'u, 'n) runtime \<Rightarrow> client \<Rightarrow> 'j outcome" where
  "getAdminViralPosts rt this =
     get rt this (''/api/admin/comments/viral'') None"

definition getHealth :: "('j, 'u, 'n) runtime \<Rightarrow> client \<Rightarrow> 'j outcome" where
  "getHealth rt this =
     get rt this (''/health'') None"

definition getHardwareConfig :: "('j, 'u, 'n) runtime \<Rightarrow> client \<Rightarrow> 'j outcome" where
  "getHardwareConfig rt this =
     get rt this (''/api/health/hardware'') None"

definition getSystemStatus :: "('j, 'u, 'n) runtime \<Rightarrow> client \<Rightarrow> 'j outcome" where
  "getSystemStatus rt this =
     get rt this (''/api/system/status'') None"

definition getMetricsOverview :: "('j, 'u, 'n) runtime \<Rightarrow> client \<Rightarrow> 'j outcome" where
  "getMetricsOverview rt this =
     get rt this (''/api/metrics/overview'') None"

definition getMetricsLLM :: "('j, 'u, 'n) runtime \<Rightarrow> client \<Rightarrow> 'j outcome" where
  "getMetricsLLM rt this =
     get rt this (''/api/metrics/llm'') None"

definition getMetricsPipeline :: "('j, 'u, 'n) runtime \<Rightarrow> client \<Rightarrow> 'j outcome" where
  "getMetricsPipeline rt this =
     get rt this (''/api/metrics/pipeline'') None"

definition getMetricsServices :: "('j, 'u, 'n) runtime \<Rightarrow> client \<Rightarrow> 'j outcome" where
  "getMetricsServices rt this =
     get rt this (''/api/metrics/services'') None"

definition listModels :: "('j, 'u, 'n) runtime \<Rightarrow> client \<Rightarrow> 'j outcome" where
  "listModels rt this =
     get rt this (''/api/models'') None"

definition getModelHealth :: "('j, 'u, 'n) runtime \<Rightarrow> client \<Rightarrow> 'j outcome" where
  "getModelHealth rt this =
     get rt this (''/api/models/health'') None"

section \<open>The tool catalog\<close>

text \<open>
  A tool descriptor, as far as the dispatcher relates to it: the name, the properties the
  input schema declares with their primitive types, and the required ones. The
  descriptions and the enumerations of the schemas are documentation that no operation of
  the program reads.
\<close>

datatype json_type = TString | TNumber | TBoolean

record Tool =
  tool_name :: string
  properties :: "(string \<times> json_type) list"
  required :: "string list"

definition tools :: "Tool list" where
  "tools =
     [ \<lparr> tool_name = ''search_messages'',
         properties = [(''query'', TString), (''channel_id'', TNumber), (''days'', TNumber),
                     (''date_from'', TString), (''date_to'', TString),
                     (''importance_level'', TString), (''topic'', TString),
                     (''has_media'', TBoolean), (''media_type'', TString),
                     (''language'', TString), (''min_views'', TNumber),
                     (''min_forwards'', TNumber), (''channel_folder'', TString),
                     (''page'', TNumber), (''page_size'', TNumber)],
         required = [] \<rparr>,
       \<lparr> tool_name = ''get_message'',
         properties = [(''message_id'', TNumber)],
         required = [''message_id''] \<rparr>,
       \<lparr> tool_name = ''get_message_album'',
         properties = [(''message_id'', TNumber)],
         required = [''message_id''] \<rparr>,
       \<lparr> tool_name = ''get_message_network'',
         properties = [(''message_id'', TNumber), (''include_similar'', TBoolean),
                     (''similarity_threshold'', TNumber), (''max_similar'', TNumber)],
         required = [''message_id''] \<rparr>,
       \<lparr> tool_name = ''get_message_timeline'',
         properties = [(''message_id'', TNumber), (''before_count'', TNumber),
                     (''after_count'', TNumber), (''same_channel_only'', TBoolean),
                     (''use_semantic'', TBoolean), (''use_events'', TBoolean)],
         required = [''message_id''] \<rparr>,
       \<lparr> tool_name = ''semantic_search'',
         properties = [(''query'', TString), (''similarity_threshold'', TNumber),
                     (''limit'', TNumber), (''channel_id'', TNumber),
                     (''importance_level'', TString), (''days'', TNumber)],
         required = [''query''] \<rparr>,
       \<lparr> tool_name = ''find_similar_messages'',
         properties = [(''message_id'', TNumber), (''similarity_threshold'', TNumber),
                     (''limit'', TNumber)],
         required = [''message_id''] \<rparr>,
       \<lparr> tool_name = ''get_tags'',
         properties = [(''tag_type'', TString), (''limit'', TNumber)],
         required = [] \<rparr>,
       \<lparr> tool_name = ''search_by_tags'',
         properties = [(''tags'', TString), (''match_all'', TBoolean), (''limit'', TNumber)],
         required = [''tags''] \<rparr>,
       \<lparr> tool_name = ''unified_search'',
         properties = [(''query'', TString), (''mode'', TString), (''types'', TString),
                     (''limit_per_type'', TNumber), (''days'', TNumber), (''location'', TString),
                     (''lat'', TNumber), (''lng'', TNumber), (''radius_km'', TNumber)],
         required = [''query''] \<rparr>,
       \<lparr> tool_name = ''list_channels'',
         properties = [(''active_only'', TBoolean), (''rule'', TString), (''folder'', TString),
                     (''verified_only'', TBoolean), (''limit'', TNumber)],
         required = [] \<rparr>,
       \<lparr> tool_name = ''get_channel'',
         properties = [(''channel_id'', TNumber)],
         required = [''channel_id''] \<rparr>,
       \<lparr> tool_name = ''get_channel_stats'',
         properties = [(''channel_id'', TNumber)],
         required = [''channel_id''] \<rparr>,
       \<lparr> tool_name = ''get_channel_network'',
         properties = [(''channel_id'', TNumber), (''similarity_threshold'', TNumber),
                     (''max_messages'', TNumber), (''time_window'', TString),
                     (''include_clusters'', TBoolean)],
         required = [''channel_id''] \<rparr>,
       \<lparr> tool_name = ''get_message_social_graph'',
         properties = [(''message_id'', TNumber), (''include_forwards'', TBoolean),
                     (''include_replies'', TBoolean), (''max_depth'', TNumber),
                     (''max_comments'', TNumber)],
         required = [''message_id''] \<rparr>,
       \<lparr> tool_name = ''get_channel_influence'',
         properties = [(''channel_id'', TNumber)],
         required = [''channel_id''] \<rparr>,
       \<lparr> tool_name = ''get_influence_network'',
         properties = [(''min_forwards'', TNumber), (''days'', TNumber), (''limit'', TNumber)],
         required = [] \<rparr>,
       \<lparr> tool_name = ''get_engagement_timeline'',
         properties = [(''message_id'', TNumber)],
         required = [''message_id''] \<rparr>,
       \<lparr> tool_name = ''get_message_comments'',
         properties = [(''message_id'', TNumber), (''limit'', TNumber), (''offset'', TNumber)],
         required = [''message_id''] \<rparr>,
       \<lparr> tool_name = ''get_top_forwarded'',
         properties = [(''days'', TNumber), (''limit'', TNumber)],
         required = [] \<rparr>,
       \<lparr> tool_name = ''get_top_influencers'',
         properties = [(''days'', TNumber), (''limit'', TNumber)],
         required = [] \<rparr>,
       \<lparr> tool_name = ''search_entities'',
         properties = [(''query'', TString), (''source'', TString), (''entity_type'', TString),
                     (''limit'', TNumber)],
         required = [''query''] \<rparr>,
       \<lparr> tool_name = ''get_entity'',
         properties = [(''source'', TString), (''entity_id'', TString),
                     (''include_linked'', TBoolean)],
         required = [''source'', ''entity_id''] \<rparr>,
       \<lparr> tool_name = ''get_entity_relationships'',
         properties = [(''source'', TString), (''entity_id'', TString), (''refresh'', TBoolean)],
         required = [''source'', ''entity_id''] \<rparr>,
       \<lparr> tool_name = ''get_entity_mentions'',
         properties = [(''source'', TString), (''entity_id'', TString), (''limit'', TNumber)],
         required = [''source'', ''entity_id''] \<rparr>,
       \<lparr> tool_name = ''list_events'',
         properties = [(''page'', TNumber), (''page_size'', TNumber), (''tab'', TString),
                     (''tier_status'', TString), (''event_type'', TString), (''search'', TString),
                     (''search_mode'', TString)],
         required = [] \<rparr>,
       \<lparr> tool_name = ''get_event_stats'',
         properties = [],
         required = [] \<rparr>,
       \<lparr> tool_name = ''get_event'',
         properties = [(''event_id'', TNumber), (''include_messages'', TBoolean),
                     (''include_sources'', TBoolean), (''message_limit'', TNumber)],
         required = [''event_id''] \<rparr>,
       \<lparr> tool_name = ''get_event_timeline'',
         properties = [(''event_id'', TNumber)],
         required = [''event_id''] \<rparr>,
       \<lparr> tool_name = ''get_events_for_message'',
         properties = [(''message_id'', TNumber)],
         required = [''message_id''] \<rparr>,
       \<lparr> tool_name = ''get_timeline_stats'',
         properties = [(''granularity'', TString), (''channel_id'', TNumber), (''topic'', TString),
                     (''importance_level'', TString), (''days'', TNumber)],
         required = [] \<rparr>,
       \<lparr> tool_name = ''get_topic_distribution'',
         properties = [(''days'', TNumber), (''limit'', TNumber)],
         required = [] \<rparr>,
       \<lparr> tool_name = ''get_language_distribution'',
         properties = [(''days'', TNumber)],
         required = [] \<rparr>,
       \<lparr> tool_name = ''get_channel_analytics'',
         properties = [(''days'', TNumber), (''limit'', TNumber)],
         required = [] \<rparr>,
       \<lparr> tool_name = ''get_activity_heatmap'',
         properties = [(''days'', TNumber)],
         required = [] \<rparr>,
       \<lparr> tool_name = ''get_entity_analytics'',
         properties = [(''days'', TNumber), (''limit'', TNumber)],
         required = [] \<rparr>,
       \<lparr> tool_name = ''get_media_analytics'',
         properties = [],
         required = [] \<rparr>,
       \<lparr> tool_name = ''get_map_messages'',
         properties = [(''bounds'', TString), (''zoom'', TNumber), (''cluster'', TBoolean),
                     (''cluster_grid_size'', TNumber), (''days'', TNumber),
                     (''include_confidence'', TBoolean)],
         required = [] \<rparr>,
       \<lparr> tool_name = ''get_map_clusters'',
         properties = [(''bounds'', TString), (''tier_status'', TString), (''days'', TNumber)],
         required = [] \<rparr>,
       \<lparr> tool_name = ''get_map_events'',
         properties = [(''bounds'', TString)],
         required = [] \<rparr>,
       \<lparr> tool_name = ''get_map_heatmap'',
         properties = [(''zoom'', TNumber), (''bounds'', TString), (''grid_size'', TNumber)],
         required = [] \<rparr>,
       \<lparr> tool_name = ''suggest_locations'',
         properties = [(''query'', TString), (''limit'', TNumber)],
         required = [''query''] \<rparr>,
       \<lparr> tool_name = ''reverse_geocode'',
         properties = [(''lat'', TNumber), (''lng'', TNumber)],
         required = [''lat'', ''lng''] \<rparr>,
       \<lparr> tool_name = ''get_unified_stream'',
         properties = [(''limit'', TNumber), (''sources'', TString), (''categories'', TString),
                     (''importance_level'', TString), (''hours'', TNumber)],
         required = [] \<rparr>,
       \<lparr> tool_name = ''validate_message'',
         properties = [(''message_id'', TNumber)],
         required = [''message_id''] \<rparr>,
       \<lparr> tool_name = ''get_message_correlations'',
         properties = [(''message_id'', TNumber)],
         required = [''message_id''] \<rparr>,
       \<lparr> tool_name = ''get_media_gallery'',
         properties = [(''channel_id'', TNumber), (''media_type'', TString),
                     (''date_from'', TString), (''date_to'', TString), (''limit'', TNumber),
                     (''offset'', TNumber)],
         required = [] \<rparr>,
       \<lparr> tool_name = ''get_platform_dashboard'',
         properties = [],
         required = [] \<rparr>,
       \<lparr> tool_name = ''get_platform_stats_overview'',
         properties = [],
         required = [] \<rparr>,
       \<lparr> tool_name = ''get_data_quality_stats'',
         properties = [],
         required = [] \<rparr>,
       \<lparr> tool_name = ''get_processing_stats'',
         properties = [(''hours'', TNumber)],
         required = [] \<rparr>,
       \<lparr> tool_name = ''get_storage_stats'',
         properties = [],
         required = [] \<rparr>,
       \<lparr> tool_name = ''get_worker_stats'',
         properties = [],
         required = [] \<rparr>,
       \<lparr> tool_name = ''get_enrichment_tasks'',
         properties = [],
         required = [] \<rparr>,
       \<lparr> tool_name = ''get_cache_stats'',
         properties = [],
         required = [] \<rparr>,
       \<lparr> tool_name = ''get_audit_stats'',
         properties = [],
         required = [] \<rparr>,
       \<lparr> tool_name = ''get_spam_stats'',
         properties = [],
         required = [] \<rparr>,
       \<lparr> tool_name = ''get_channels_admin_stats'',
         properties = [],
         required = [] \<rparr>,
       \<lparr> tool_name = ''get_entities_admin_stats'',
         properties = [],
         required = [] \<rparr>,
       \<lparr> tool_name = ''get_rss_feeds_stats'',
         properties = [],
         required = [] \<rparr>,
       \<lparr> tool_name = ''get_llm_prompts_stats'',
         properties = [],
         required = [] \<rparr>,
       \<lparr> tool_name = ''get_viral_posts'',
         properties = [],
         required = [] \<rparr>,
       \<lparr> tool_name = ''get_system_health'',
         properties = [],
         required = [] \<rparr>,
       \<lparr> tool_name = ''get_hardware_config'',
         properties = [],
         required = [] \<rparr>,
       \<lparr> tool_name = ''get_system_status'',
         properties = [],
         required = [] \<rparr>,
       \<lparr> tool_name = ''get_metrics_overview'',
         properties = [],
         required = [] \<rparr>,
       \<lparr> tool_name = ''get_metrics_llm'',
         properties = [],
         required = [] \<rparr>,
       \<lparr> tool_name = ''get_metrics_pipeline'',
         properties = [],
         required = [] \<rparr>,
       \<lparr> tool_name = ''get_metrics_services'',
         properties = [],
         required = [] \<rparr>,
       \<lparr> tool_name = ''list_llm_models'',
         properties = [],
         required = [] \<rparr>,
       \<lparr> tool_name = ''get_llm_model_health'',
         properties = [],
         required = [] \<rparr> ]"

section \<open>The dispatcher\<close>

text \<open>
  The argument bag: \<open>None\<close> when the request carries no \<open>arguments\<close>, else the
  decoded object. \<open>arg args k\<close> is the property read \<open>args.k\<close>, undefined for a
  missing key.
\<close>

type_synonym 'n args = "string \<rightharpoonup> 'n jsvalue"

definition arg :: "'n args \<Rightarrow> string \<Rightarrow> 'n jsvalue" where
  "arg args k = (case args k of None \<Rightarrow> JUndefined | Some v \<Rightarrow> v)"

text \<open>
  A binding that reads properties of the bag: its first read, of property \<open>first\<close>,
  throws when the bag is undefined, before any request is issued.
\<close>

definition reading ::
  "('j, 'u, 'n) runtime \<Rightarrow> 'n args option \<Rightarrow> string \<Rightarrow> ('n args \<Rightarrow> 'j outcome) \<Rightarrow>
     'j outcome" where
  "reading rt bag first k =
     (case bag of None \<Rightarrow> ([], Inl (undefined_read rt first)) | Some args \<Rightarrow> k args)"

text \<open>
  The cases of the \<open>switch\<close> of \<open>handleToolCall\<close>, in source order, each label with
  its binding.
\<close>

type_synonym ('j, 'u, 'n) binding =
  "('j, 'u, 'n) runtime \<Rightarrow> client \<Rightarrow> 'n args option \<Rightarrow> 'j outcome"


definition dispatch_cases ::
  "(string \<times> ('j, 'u, 'n) binding) list" where
  "dispatch_cases =
     [ (''search_messages'',
        \<lambda>rt apiClient bag. reading rt bag ''query'' (\<lambda>args.
           searchMessages rt apiClient
             [(''q'', arg args ''query''),
              (''channel_id'', arg args ''channel_id''),
              (''days'', arg args ''days''),
              (''date_from'', arg args ''date_from''),
              (''date_to'', arg args ''date_to''),
              (''importance_level'', arg args ''importance_level''),
              (''topic'', arg args ''topic''),
              (''has_media'', arg args ''has_media''),
              (''media_type'', arg args ''media_type''),
              (''language'', arg args ''language''),
              (''min_views'', arg args ''min_views''),
              (''min_forwards'', arg args ''min_forwards''),
              (''channel_folder'', arg args ''channel_folder''),
              (''page'', arg args ''page''),
              (''page_size'', arg args ''page_size'')])),
       (''get_message'',
        \<lambda>rt apiClient bag. reading rt bag ''message_id'' (\<lambda>args.
           getMessage rt apiClient (arg args ''message_id''))),
       (''get_message_album'',
        \<lambda>rt apiClient bag. reading rt bag ''message_id'' (\<lambda>args.
           getMessageAlbum rt apiClient (arg args ''message_id''))),
       (''get_message_network'',
        \<lambda>rt apiClient bag. reading rt bag ''message_id'' (\<lambda>args.
           getMessageNetwork rt apiClient (arg args ''message_id'')
             (Some [(''include_similar'', arg args ''include_similar''),
              (''similarity_threshold'', arg args ''similarity_threshold''),
              (''max_similar'', arg args ''max_similar'')]))),
       (''get_message_timeline'',
        \<lambda>rt apiClient bag. reading rt bag ''message_id'' (\<lambda>args.
           getMessageTimeline rt apiClient (arg args ''message_id'')
             (Some [(''before_count'', arg args ''before_count''),
              (''after_count'', arg args ''after_count''),
              (''same_channel_only'', arg args ''same_channel_only''),
              (''use_semantic'', arg args ''use_semantic''),
              (''use_events'', arg args ''use_events''),
              (''similarity_threshold'', arg args ''similarity_threshold'')]))),
       (''semantic_search'',
        \<lambda>rt apiClient bag. reading rt bag ''query'' (\<lambda>args.
           semanticSearch rt apiClient
             [(''q'', arg args ''query''),
              (''similarity_threshold'', arg args ''similarity_threshold''),
              (''limit'', arg args ''limit''),
              (''channel_id'', arg args ''channel_id''),
              (''importance_level'', arg args ''importance_level''),
              (''days'', arg args ''days'')])),
       (''find_similar_messages'',
        \<lambda>rt apiClient bag. reading rt bag ''message_id'' (\<lambda>args.
           findSimilarMessages rt apiClient (arg args ''message_id'')
             (Some [(''similarity_threshold'', arg args ''similarity_threshold''),
              (''limit'', arg args ''limit'')]))),
       (''get_tags'',
        \<lambda>rt apiClient bag. reading rt bag ''tag_type'' (\<lambda>args.
           getTags rt apiClient
             (Some [(''tag_type'', arg args ''tag_type''),
              (''limit'', arg args ''limit'')]))),
       (''search_by_tags'',
        \<lambda>rt apiClient bag. reading rt bag ''tags'' (\<lambda>args.
           searchByTags rt apiClient
             [(''tags'', arg args ''tags''),
              (''match_all'', arg args ''match_all''),
              (''limit'', arg args ''limit'')])),
       (''unified_search'',
        \<lambda>rt apiClient bag. reading rt bag ''query'' (\<lambda>args.
           unifiedSearch rt apiClient
             [(''q'', arg args ''query''),
              (''mode'', arg args ''mode''),
              (''types'', arg args ''types''),
              (''limit_per_type'', arg args ''limit_per_type''),
              (''days'', arg args ''days''),
              (''location'', arg args ''location''),
              (''lat'', arg args ''lat''),
              (''lng'', arg args ''lng''),
              (''radius_km'', arg args ''radius_km'')])),
       (''list_channels'',
        \<lambda>rt apiClient bag. reading rt bag ''active_only'' (\<lambda>args.
           listChannels rt apiClient
             (Some [(''active_only'', arg args ''active_only''),
              (''rule'', arg args ''rule''),
              (''folder'', arg args ''folder''),
              (''verified_only'', arg args ''verified_only''),
              (''limit'', arg args ''limit'')]))),
       (''get_channel'',
        \<lambda>rt apiClient bag. reading rt bag ''channel_id'' (\<lambda>args.
           getChannel rt apiClient (arg args ''channel_id''))),
       (''get_channel_stats'',
        \<lambda>rt apiClient bag. reading rt bag ''channel_id'' (\<lambda>args.
           getChannelStats rt apiClient (arg args ''channel_id''))),
       (''get_channel_network'',
        \<lambda>rt apiClient bag. reading rt bag ''channel_id'' (\<lambda>args.
           getChannelNetwork rt apiClient (arg args ''channel_id'')
             (Some [(''similarity_threshold'', arg args ''similarity_threshold''),
              (''max_messages'', arg args ''max_messages''),
              (''time_window'', arg args ''time_window''),
              (''include_clusters'', arg args ''include_clusters'')]))),
       (''get_message_social_graph'',
        \<lambda>rt apiClient bag. reading rt bag ''message_id'' (\<lambda>args.
           getMessageSocialGraph rt apiClient (arg args ''message_id'')
             (Some [(''include_forwards'', arg args ''include_forwards''),
              (''include_replies'', arg args ''include_replies''),
              (''max_depth'', arg args ''max_depth''),
              (''max_comments'', arg args ''max_comments'')]))),
       (''get_channel_influence'',
        \<lambda>rt apiClient bag. reading rt bag ''channel_id'' (\<lambda>args.
           getChannelInfluence rt apiClient (arg args ''channel_id''))),
       (''get_influence_network'',
        \<lambda>rt apiClient bag. reading rt bag ''min_forwards'' (\<lambda>args.
           getInfluenceNetwork rt apiClient
             (Some [(''min_forwards'', arg args ''min_forwards''),
              (''days'', arg args ''days''),
              (''limit'', arg args ''limit'')]))),
       (''get_engagement_timeline'',
        \<lambda>rt apiClient bag. reading rt bag ''message_id'' (\<lambda>args.
           getEngagementTimeline rt apiClient (arg args ''message_id''))),
       (''get_message_comments'',
        \<lambda>rt apiClient bag. reading rt bag ''message_id'' (\<lambda>args.
           getMessageComments rt apiClient (arg args ''message_id'')
             (Some [(''limit'', arg args ''limit''),
              (''offset'', arg args ''offset'')]))),
       (''get_top_forwarded'',
        \<lambda>rt apiClient bag. reading rt bag ''days'' (\<lambda>args.
           getTopForwarded rt apiClient
             (Some [(''days'', arg args ''days''),
              (''limit'', arg args ''limit'')]))),
       (''get_top_influencers'',
        \<lambda>rt apiClient bag. reading rt bag ''days'' (\<lambda>args.
           getTopInfluencers rt apiClient
             (Some [(''days'', arg args ''days''),
              (''limit'', arg args ''limit'')]))),
       (''search_entities'',
        \<lambda>rt apiClient bag. reading rt bag ''query'' (\<lambda>args.
           searchEntities rt apiClient
             [(''q'', arg args ''query''),
              (''source'', arg args ''source''),
              (''entity_type'', arg args ''entity_type''),
              (''limit'', arg args ''limit'')])),
       (''get_entity'',
        \<lambda>rt apiClient bag. reading rt bag ''source'' (\<lambda>args.
           getEntity rt apiClient (arg args ''source'') (arg args ''entity_id'')
             (Some [(''include_linked'', arg args ''include_linked'')]))),
       (''get_entity_relationships'',
        \<lambda>rt apiClient bag. reading rt bag ''source'' (\<lambda>args.
           getEntityRelationships rt apiClient (arg args ''source'') (arg args ''entity_id'')
             (Some [(''refresh'', arg args ''refresh'')]))),
       (''get_entity_mentions'',
        \<lambda>rt apiClient bag. reading rt bag ''source'' (\<lambda>args.
           getEntityMessages rt apiClient (arg args ''source'') (arg args ''entity_id'')
             (Some [(''limit'', arg args ''limit'')]))),
       (''list_events'',
        \<lambda>rt apiClient bag. reading rt bag ''page'' (\<lambda>args.
           listEvents rt apiClient
             (Some [(''page'', arg args ''page''),
              (''page_size'', arg args ''page_size''),
              (''tab'', arg args ''tab''),
              (''tier_status'', arg args ''tier_status''),
              (''event_type'', arg args ''event_type''),
              (''search'', arg args ''search''),
              (''search_mode'', arg args ''search_mode'')]))),
       (''get_event_stats'',
        \<lambda>rt apiClient bag. getEventStats rt apiClient),
       (''get_event'',
        \<lambda>rt apiClient bag. reading rt bag ''event_id'' (\<lambda>args.
           getEvent rt apiClient (arg args ''event_id'')
             (Some [(''include_messages'', arg args ''include_messages''),
              (''include_sources'', arg args ''include_sources''),
              (''message_limit'', arg args ''message_limit'')]))),
       (''get_event_timeline'',
        \<lambda>rt apiClient bag. reading rt bag ''event_id'' (\<lambda>args.
           getEventTimeline rt apiClient (arg args ''event_id''))),
       (''get_events_for_message'',
        \<lambda>rt apiClient bag. reading rt bag ''message_id'' (\<lambda>args.
           getEventsForMessage rt apiClient (arg args ''message_id''))),
       (''get_timeline_stats'',
        \<lambda>rt apiClient bag. reading rt bag ''granularity'' (\<lambda>args.
           getTimelineStats rt apiClient
             (Some [(''granularity'', arg args ''granularity''),
              (''channel_id'', arg args ''channel_id''),
              (''topic'', arg args ''topic''),
              (''importance_level'', arg args ''importance_level''),
              (''days'', arg args ''days'')]))),
       (''get_topic_distribution'',
        \<lambda>rt apiClient bag. reading rt bag ''days'' (\<lambda>args.
           getTopicDistribution rt apiClient
             (Some [(''days'', arg args ''days''),
              (''limit'', arg args ''limit'')]))),
       (''get_language_distribution'',
        \<lambda>rt apiClient bag. reading rt bag ''days'' (\<lambda>args.
           getLanguageDistribution rt apiClient
             (Some [(''days'', arg args ''days'')]))),
       (''get_channel_analytics'',
        \<lambda>rt apiClient bag. reading rt bag ''days'' (\<lambda>args.
           getChannelAnalytics rt apiClient
             (Some [(''days'', arg args ''days''),
              (''limit'', arg args ''limit'')]))),
       (''get_activity_heatmap'',
        \<lambda>rt apiClient bag. reading rt bag ''days'' (\<lambda>args.
           getHeatmap rt apiClient
             (Some [(''days'', arg args ''days'')]))),
       (''get_entity_analytics'',
        \<lambda>rt apiClient bag. reading rt bag ''days'' (\<lambda>args.
           getEntityAnalytics rt apiClient
             (Some [(''days'', arg args ''days''),
              (''limit'', arg args ''limit'')]))),
       (''get_media_analytics'',
        \<lambda>rt apiClient bag. getMediaAnalytics rt apiClient),
       (''get_map_messages'',
        \<lambda>rt apiClient bag. reading rt bag ''bounds'' (\<lambda>args.
           getMapMessages rt apiClient
             (Some [(''bounds'', arg args ''bounds''),
              (''zoom'', arg args ''zoom''),
              (''cluster'', arg args ''cluster''),
              (''cluster_grid_size'', arg args ''cluster_grid_size''),
              (''days'', arg args ''days''),
              (''include_confidence'', arg args ''include_confidence'')]))),
       (''get_map_clusters'',
        \<lambda>rt apiClient bag. reading rt bag ''bounds'' (\<lambda>args.
           getMapClusters rt apiClient
             (Some [(''bounds'', arg args ''bounds''),
              (''tier_status'', arg args ''tier_status''),
              (''days'', arg args ''days'')]))),
       (''get_map_events'',
        \<lambda>rt apiClient bag. reading rt bag ''bounds'' (\<lambda>args.
           getMapEvents rt apiClient
             (Some [(''bounds'', arg args ''bounds'')]))),
       (''get_map_heatmap'',
        \<lambda>rt apiClient bag. reading rt bag ''zoom'' (\<lambda>args.
           getMapHeatmap rt apiClient
             (Some [(''zoom'', arg args ''zoom''),
              (''bounds'', arg args ''bounds''),
              (''grid_size'', arg args ''grid_size'')]))),
       (''suggest_locations'',
        \<lambda>rt apiClient bag. reading rt bag ''query'' (\<lambda>args.
           suggestLocations rt apiClient
             [(''q'', arg args ''query''),
              (''limit'', arg args ''limit'')])),
       (''reverse_geocode'',
        \<lambda>rt apiClient bag. reading rt bag ''lat'' (\<lambda>args.
           reverseGeocode rt apiClient
             [(''lat'', arg args ''lat''),
              (''lng'', arg args ''lng'')])),
       (''get_unified_stream'',
        \<lambda>rt apiClient bag. reading rt bag ''limit'' (\<lambda>args.
           getUnifiedStream rt apiClient
             (Some [(''limit'', arg args ''limit''),
              (''sources'', arg args ''sources''),
              (''categories'', arg args ''categories''),
              (''importance_level'', arg args ''importance_level''),
              (''hours'', arg args ''hours'')]))),
       (''validate_message'',
        \<lambda>rt apiClient bag. reading rt bag ''message_id'' (\<lambda>args.
           validateMessage rt apiClient (arg args ''message_id''))),
       (''get_message_correlations'',
        \<lambda>rt apiClient bag. reading rt bag ''message_id'' (\<lambda>args.
           getCorrelations rt apiClient (arg args ''message_id''))),
       (''get_media_gallery'',
        \<lambda>rt apiClient bag. reading rt bag ''channel_id'' (\<lambda>args.
           getMediaGallery rt apiClient
             (Some [(''channel_id'', arg args ''channel_id''),
              (''media_type'', arg args ''media_type''),
              (''date_from'', arg args ''date_from''),
              (''date_to'', arg args ''date_to''),
              (''limit'', arg args ''limit''),
              (''offset'', arg args ''offset'')]))),
       (''get_platform_dashboard'',
        \<lambda>rt apiClient bag. getAdminDashboard rt apiClient),
       (''get_platform_stats_overview'',
        \<lambda>rt apiClient bag. getAdminStatsOverview rt apiClient),
       (''get_data_quality_stats'',
        \<lambda>rt apiClient bag. getAdminStatsQuality rt apiClient),
       (''get_processing_stats'',
        \<lambda>rt apiClient bag. reading rt bag ''hours'' (\<lambda>args.
           getAdminStatsProcessing rt apiClient
             (Some [(''hours'', arg args ''hours'')]))),
       (''get_storage_stats'',
        \<lambda>rt apiClient bag. getAdminStatsStorage rt apiClient),
       (''get_worker_stats'',
        \<lambda>rt apiClient bag. getAdminWorkersStats rt apiClient),
       (''get_enrichment_tasks'',
        \<lambda>rt apiClient bag. getAdminEnrichmentTasks rt apiClient),
       (''get_cache_stats'',
        \<lambda>rt apiClient bag. getAdminCacheStats rt apiClient),
       (''get_audit_stats'',
        \<lambda>rt apiClient bag. getAdminAuditStats rt apiClient),
       (''get_spam_stats'',
        \<lambda>rt apiClient bag. getAdminSpamStats rt apiClient),
       (''get_channels_admin_stats'',
        \<lambda>rt apiClient bag. getAdminChannelsStats rt apiClient),
       (''get_entities_admin_stats'',
        \<lambda>rt apiClient bag. getAdminEntitiesStats rt apiClient),
       (''get_rss_feeds_stats'',
        \<lambda>rt apiClient bag. getAdminFeedsStats rt apiClient),
       (''get_llm_prompts_stats'',
        \<lambda>rt apiClient bag. getAdminPromptsStats rt apiClient),
       (''get_viral_posts'',
        \<lambda>rt apiClient bag. getAdminViralPosts rt apiClient),
       (''get_system_health'',
        \<lambda>rt apiClient bag. getHealth rt apiClient),
       (''get_hardware_config'',
        \<lambda>rt apiClient bag. getHardwareConfig rt apiClient),
       (''get_system_status'',
        \<lambda>rt apiClient bag. getSystemStatus rt apiClient),
       (''get_metrics_overview'',
        \<lambda>rt apiClient bag. getMetricsOverview rt apiClient),
       (''get_metrics_llm'',
        \<lambda>rt apiClient bag. getMetricsLLM rt apiClient),
       (''get_metrics_pipeline'',
        \<lambda>rt apiClient bag. getMetricsPipeline rt apiClient),
       (''get_metrics_services'',
        \<lambda>rt apiClient bag. getMetricsServices rt apiClient),
       (''list_llm_models'',
        \<lambda>rt apiClient bag. listModels rt apiClient),
       (''get_llm_model_health'',
        \<lambda>rt apiClient bag. getModelHealth rt apiClient) ]"

text \<open>
  \<open>handleToolCall\<close>: the first case whose label equals the name runs; the default case
  throws.
\<close>

definition handleToolCall ::
  "('j, 'u, 'n) runtime \<Rightarrow> client \<Rightarrow> string \<Rightarrow> 'n args option \<Rightarrow> 'j outcome" where
  "handleToolCall rt apiClient name bag =
     (case map_of dispatch_cases name of
        Some binding \<Rightarrow> binding rt apiClient bag
      | None \<Rightarrow> ([], Inl (''Unknown tool: '' @ name)))"

section \<open>The server\<close>

record content_block =
  block_type :: string
  block_text :: string

text \<open>The result of a tool call; \<open>isError\<close> is absent from a successful one.\<close>

record CallToolResult =
  content :: "content_block list"
  isError :: "bool option"

text \<open>The handler registered for \<open>CallToolRequestSchema\<close>.\<close>

definition callToolHandler ::
  "('j, 'u, 'n) runtime \<Rightarrow> client \<Rightarrow> string \<Rightarrow> 'n args option \<Rightarrow>
     event list \<times> CallToolResult" where
  "callToolHandler rt apiClient name bag =
     (case handleToolCall rt apiClient name bag of
        (issued, Inr result) \<Rightarrow>
          (issued,
           \<lparr> content = [\<lparr> block_type = ''text'', block_text = JSON_stringify_indent2 rt result \<rparr>],
             isError = None \<rparr>)
      | (issued, Inl errorMessage) \<Rightarrow>
          (issued,
           \<lparr> content = [\<lparr> block_type = ''text'', block_text = ''Error: '' @ errorMessage \<rparr>],
             isError = Some True \<rparr>))"

text \<open>
  The request kinds of the protocol and the handler table of the server. The program
  calls \<open>setRequestHandler\<close> twice; a request whose schema has no handler is answered
  by the protocol library with a method-not-found error.
\<close>

datatype request_schema =
    ListToolsRequestSchema
  | CallToolRequestSchema
  | ListResourcesRequestSchema
  | ReadResourceRequestSchema
  | ListPromptsRequestSchema
  | GetPromptRequestSchema

datatype 'n mcp_request =
    ListTools
  | CallTool string "'n args option"
  | ListResources
  | ReadResource string
  | ListPrompts
  | GetPrompt string "string \<rightharpoonup> string"

fun schema_of :: "'n mcp_request \<Rightarrow> request_schema" where
  "schema_of ListTools = ListToolsRequestSchema"
| "schema_of (CallTool name bag) = CallToolRequestSchema"
| "schema_of ListResources = ListResourcesRequestSchema"
| "schema_of (ReadResource uri) = ReadResourceRequestSchema"
| "schema_of ListPrompts = ListPromptsRequestSchema"
| "schema_of (GetPrompt name args) = GetPromptRequestSchema"

datatype mcp_response =
    ToolList "Tool list"
  | ToolResult CallToolResult
  | MethodNotFound

definition listToolsHandler :: "event list \<times> mcp_response" where
  "listToolsHandler = ([], ToolList tools)"

fun callToolRequestHandler ::
  "('j, 'u, 'n) runtime \<Rightarrow> client \<Rightarrow> 'n mcp_request \<Rightarrow> event list \<times> mcp_response" where
  "callToolRequestHandler rt apiClient (CallTool name bag) =
     (case callToolHandler rt apiClient name bag of (issued, r) \<Rightarrow> (issued, ToolResult r))"
| "callToolRequestHandler rt apiClient other = ([], MethodNotFound)"

definition server ::
  "(request_schema \<times>
    (('j, 'u, 'n) runtime \<Rightarrow> client \<Rightarrow> 'n mcp_request \<Rightarrow> event list \<times> mcp_response)) list" where
  "server =
     [ (ListToolsRequestSchema, \<lambda>rt apiClient request. listToolsHandler),
       (CallToolRequestSchema, callToolRequestHandler) ]"

definition serve ::
  "('j, 'u, 'n) runtime \<Rightarrow> client \<Rightarrow> 'n mcp_request \<Rightarrow> event list \<times> mcp_response" where
  "serve rt apiClient request =
     (case map_of server (schema_of request) of
        Some handler \<Rightarrow> handler rt apiClient request
      | None \<Rightarrow> ([], MethodNotFound))"

section \<open>The first revision of the server and client\<close>

text \<open>
  The repository also holds the earlier revision of the entry point and of the client.
  Its \<open>get\<close>, \<open>post\<close> and call-tool handler are those above; its configuration,
  constructor, client methods, catalog and dispatcher differ and are given here.
\<close>

record ApiClientConfig_v1 =
  baseUrl_v1 :: string
  apiKey_v1 :: "string option"
  jwtToken_v1 :: "string option"

definition OsintApiClient_v1 :: "ApiClientConfig_v1 \<Rightarrow> client" where
  "OsintApiClient_v1 config =
     \<lparr> client_baseUrl = strip_trailing_slash (baseUrl_v1 config),
       client_headers =
         (if truthy (jwtToken_v1 config) then
            json_headers(''Authorization'' \<mapsto> ''Bearer '' @ interpolate (jwtToken_v1 config))
          else if truthy (apiKey_v1 config) then
            json_headers(''X-API-Key'' := apiKey_v1 config)
          else json_headers) \<rparr>"

definition searchMessages_v1 :: "('j, 'u, 'n) runtime \<Rightarrow> client \<Rightarrow> (string \<times> 'n jsvalue) list \<Rightarrow> 'j outcome" where
  "searchMessages_v1 rt this params =
     get rt this (''/api/messages'') (Some params)"

definition getMessage_v1 :: "('j, 'u, 'n) runtime \<Rightarrow> client \<Rightarrow> 'n jsvalue \<Rightarrow> 'j outcome" where
  "getMessage_v1 rt this messageId =
     interp rt messageId (\<lambda>messageId_str.
       get rt this (''/api/messages/'' @ messageId_str) None)"

definition getAdjacentMessages_v1 :: "('j, 'u, 'n) runtime \<Rightarrow> client \<Rightarrow> 'n jsvalue \<Rightarrow> 'j outcome" where
  "getAdjacentMessages_v1 rt this messageId =
     interp rt messageId (\<lambda>messageId_str.
       get rt this (''/api/messages/'' @ messageId_str @ ''/adjacent'') None)"

definition semanticSearch_v1 :: "('j, 'u, 'n) runtime \<Rightarrow> client \<Rightarrow> (string \<times> 'n jsvalue) list \<Rightarrow> 'j outcome" where
  "semanticSearch_v1 rt this params =
     get rt this (''/api/semantic/search'') (Some params)"

definition findSimilarMessages_v1 :: "('j, 'u, 'n) runtime \<Rightarrow> client \<Rightarrow> 'n jsvalue \<Rightarrow> (string \<times> 'n jsvalue) list option \<Rightarrow> 'j outcome" where
  "findSimilarMessages_v1 rt this messageId params =
     interp rt messageId (\<lambda>messageId_str.
       get rt this (''/api/semantic/similar/'' @ messageId_str) params)"

definition unifiedSearch_v1 :: "('j, 'u, 'n) runtime \<Rightarrow> client \<Rightarrow> (string \<times> 'n jsvalue) list \<Rightarrow> 'j outcome" where
  "unifiedSearch_v1 rt this params =
     get rt this (''/api/search'') (Some params)"

definition listChannels_v1 :: "('j, 'u, 'n) runtime \<Rightarrow> client \<Rightarrow> (string \<times> 'n jsvalue) list option \<Rightarrow> 'j outcome" where
  "listChannels_v1 rt this params =
     get rt this (''/api/channels'') params"

definition getChannel_v1 :: "('j, 'u, 'n) runtime \<Rightarrow> client \<Rightarrow> 'n jsvalue \<Rightarrow> 'j outcome" where
  "getChannel_v1 rt this channelId =
     interp rt channelId (\<lambda>channelId_str.
       get rt this (''/api/channels/'' @ channelId_str) None)"

definition getChannelStats_v1 :: "('j, 'u, 'n) runtime \<Rightarrow> client \<Rightarrow> 'n jsvalue \<Rightarrow> 'j outcome" where
  "getChannelStats_v1 rt this channelId =
     interp rt channelId (\<lambda>channelId_str.
       get rt this (''/api/channels/'' @ channelId_str @ ''/stats'') None)"

definition searchEntities_v1 :: "('j, 'u, 'n) runtime \<Rightarrow> client \<Rightarrow> (string \<times> 'n jsvalue) list \<Rightarrow> 'j outcome" where
  "searchEntities_v1 rt this params =
     get rt this (''/api/entities/search'') (Some params)"

definition getEntity_v1 :: "('j, 'u, 'n) runtime \<Rightarrow> client \<Rightarrow> 'n jsvalue \<Rightarrow> 'j outcome" where
  "getEntity_v1 rt this entityId =
     interp rt entityId (\<lambda>entityId_str.
       get rt this (''/api/entities/'' @ entityId_str) None)"

definition getEntityRelationships_v1 :: "('j, 'u, 'n) runtime \<Rightarrow> client \<Rightarrow> 'n jsvalue \<Rightarrow> 'j outcome" where
  "getEntityRelationships_v1 rt this entityId =
     interp rt entityId (\<lambda>entityId_str.
       get rt this (''/api/entities/'' @ entityId_str @ ''/relationships'') None)"

definition getEntityLinkedMessages_v1 :: "('j, 'u, 'n) runtime \<Rightarrow> client \<Rightarrow> 'n jsvalue \<Rightarrow> (string \<times> 'n jsvalue) list option \<Rightarrow> 'j outcome" where
  "getEntityLinkedMessages_v1 rt this entityId params =
     interp rt entityId (\<lambda>entityId_str.
       get rt this (''/api/entities/'' @ entityId_str @ ''/messages'') params)"

definition listEvents_v1 :: "('j, 'u, 'n) runtime \<Rightarrow> client \<Rightarrow> (string \<times> 'n jsvalue) list option \<Rightarrow> 'j outcome" where
  "listEvents_v1 rt this params =
     get rt this (''/api/events'') params"

definition getEvent_v1 :: "('j, 'u, 'n) runtime \<Rightarrow> client \<Rightarrow> 'n jsvalue \<Rightarrow> 'j outcome" where
  "getEvent_v1 rt this eventId =
     interp rt eventId (\<lambda>eventId_str.
       get rt this (''/api/events/'' @ eventId_str) None)"

definition getEventMessages_v1 :: "('j, 'u, 'n) runtime \<Rightarrow> client \<Rightarrow> 'n jsvalue \<Rightarrow> 'j outcome" where
  "getEventMessages_v1 rt this eventId =
     interp rt eventId (\<lambda>eventId_str.
       get rt this (''/api/events/'' @ eventId_str @ ''/messages'') None)"

definition getTimelineStats_v1 :: "('j, 'u, 'n) runtime \<Rightarrow> client \<Rightarrow> (string \<times> 'n jsvalue) list option \<Rightarrow> 'j outcome" where
  "getTimelineStats_v1 rt this params =
     get rt this (''/api/analytics/timeline'') params"

definition getTopicDistribution_v1 :: "('j, 'u, 'n) runtime \<Rightarrow> client \<Rightarrow> (string \<times> 'n jsvalue) list option \<Rightarrow> 'j outcome" where
  "getTopicDistribution_v1 rt this params =
     get rt this (''/api/analytics/topics'') params"

definition getChannelAnalytics_v1 :: "('j, 'u, 'n) runtime \<Rightarrow> client \<Rightarrow> (string \<times> 'n jsvalue) list option \<Rightarrow> 'j outcome" where
  "getChannelAnalytics_v1 rt this params =
     get rt this (''/api/analytics/channels'') params"

definition getMessageSocialGraph_v1 :: "('j, 'u, 'n) runtime \<Rightarrow> client \<Rightarrow> 'n jsvalue \<Rightarrow> 'j outcome" where
  "getMessageSocialGraph_v1 rt this messageId =
     interp rt messageId (\<lambda>messageId_str.
       get rt this (''/api/messages/'' @ messageId_str @ ''/social-graph'') None)"

definition getChannelNetwork_v1 :: "('j, 'u, 'n) runtime \<Rightarrow> client \<Rightarrow> 'n jsvalue \<Rightarrow> (string \<times> 'n jsvalue) list option \<Rightarrow> 'j outcome" where
  "getChannelNetwork_v1 rt this channelId params =
     interp rt channelId (\<lambda>channelId_str.
       get rt this (''/api/channels/'' @ channelId_str @ ''/network'') params)"

definition getMapMessages_v1 :: "('j, 'u, 'n) runtime \<Rightarrow> client \<Rightarrow> (string \<times> 'n jsvalue) list option \<Rightarrow> 'j outcome" where
  "getMapMessages_v1 rt this params =
     get rt this (''/api/map/messages'') params"

definition getMapClusters_v1 :: "('j, 'u, 'n) runtime \<Rightarrow> client \<Rightarrow> (string \<times> 'n jsvalue) list option \<Rightarrow> 'j outcome" where
  "getMapClusters_v1 rt this params =
     get rt this (''/api/map/clusters'') params"

definition getHealth_v1 :: "('j, 'u, 'n) runtime \<Rightarrow> client \<Rightarrow> 'j outcome" where
  "getHealth_v1 rt this =
     get rt this (''/health'') None"

definition getSystemStatus_v1 :: "('j, 'u, 'n) runtime \<Rightarrow> client \<Rightarrow> 'j outcome" where
  "getSystemStatus_v1 rt this =
     get rt this (''/api/system/status'') None"

definition tools_v1 :: "Tool list" where
  "tools_v1 =
     [ \<lparr> tool_name = ''search_messages'',
         properties = [(''query'', TString), (''channel_id'', TNumber), (''days'', TNumber),
                     (''date_from'', TString), (''date_to'', TString),
                     (''importance_level'', TString), (''topic'', TString),
                     (''has_media'', TBoolean), (''page'', TNumber), (''page_size'', TNumber)],
         required = [] \<rparr>,
       \<lparr> tool_name = ''get_message'',
         properties = [(''message_id'', TNumber)],
         required = [''message_id''] \<rparr>,
       \<lparr> tool_name = ''get_message_social_graph'',
         properties = [(''message_id'', TNumber)],
         required = [''message_id''] \<rparr>,
       \<lparr> tool_name = ''semantic_search'',
         properties = [(''query'', TString), (''similarity_threshold'', TNumber),
                     (''limit'', TNumber), (''channel_id'', TNumber), (''days'', TNumber)],
         required = [''query''] \<rparr>,
       \<lparr> tool_name = ''find_similar_messages'',
         properties = [(''message_id'', TNumber), (''similarity_threshold'', TNumber),
                     (''limit'', TNumber)],
         required = [''message_id''] \<rparr>,
       \<lparr> tool_name = ''unified_search'',
         properties = [(''query'', TString), (''mode'', TString), (''types'', TString),
                     (''limit_per_type'', TNumber), (''days'', TNumber)],
         required = [''query''] \<rparr>,
       \<lparr> tool_name = ''list_channels'',
         properties = [(''active_only'', TBoolean), (''rule'', TString), (''folder'', TString),
                     (''verified_only'', TBoolean), (''limit'', TNumber)],
         required = [] \<rparr>,
       \<lparr> tool_name = ''get_channel'',
         properties = [(''channel_id'', TNumber)],
         required = [''channel_id''] \<rparr>,
       \<lparr> tool_name = ''get_channel_stats'',
         properties = [(''channel_id'', TNumber)],
         required = [''channel_id''] \<rparr>,
       \<lparr> tool_name = ''get_channel_network'',
         properties = [(''channel_id'', TNumber), (''depth'', TNumber)],
         required = [''channel_id''] \<rparr>,
       \<lparr> tool_name = ''search_entities'',
         properties = [(''query'', TString), (''source'', TString), (''entity_type'', TString),
                     (''limit'', TNumber)],
         required = [''query''] \<rparr>,
       \<lparr> tool_name = ''get_entity'',
         properties = [(''entity_id'', TString)],
         required = [''entity_id''] \<rparr>,
       \<lparr> tool_name = ''get_entity_relationships'',
         properties = [(''entity_id'', TString)],
         required = [''entity_id''] \<rparr>,
       \<lparr> tool_name = ''get_entity_mentions'',
         properties = [(''entity_id'', TString), (''limit'', TNumber)],
         required = [''entity_id''] \<rparr>,
       \<lparr> tool_name = ''list_events'',
         properties = [(''tier'', TString), (''days'', TNumber), (''location'', TString),
                     (''limit'', TNumber)],
         required = [] \<rparr>,
       \<lparr> tool_name = ''get_event'',
         properties = [(''event_id'', TNumber)],
         required = [''event_id''] \<rparr>,
       \<lparr> tool_name = ''get_event_messages'',
         properties = [(''event_id'', TNumber)],
         required = [''event_id''] \<rparr>,
       \<lparr> tool_name = ''get_timeline_stats'',
         properties = [(''granularity'', TString), (''channel_id'', TNumber), (''topic'', TString),
                     (''importance_level'', TString), (''days'', TNumber)],
         required = [] \<rparr>,
       \<lparr> tool_name = ''get_topic_distribution'',
         properties = [(''days'', TNumber), (''limit'', TNumber)],
         required = [] \<rparr>,
       \<lparr> tool_name = ''get_channel_analytics'',
         properties = [(''days'', TNumber), (''limit'', TNumber)],
         required = [] \<rparr>,
       \<lparr> tool_name = ''get_map_messages'',
         properties = [(''bbox'', TString), (''days'', TNumber), (''zoom'', TNumber)],
         required = [] \<rparr>,
       \<lparr> tool_name = ''get_map_clusters'',
         properties = [(''bbox'', TString), (''tier'', TString), (''days'', TNumber)],
         required = [] \<rparr>,
       \<lparr> tool_name = ''get_system_health'',
         properties = [],
         required = [] \<rparr>,
       \<lparr> tool_name = ''get_system_status'',
         properties = [],
         required = [] \<rparr> ]"

definition dispatch_cases_v1 ::
  "(string \<times> ('j, 'u, 'n) binding) list" where
  "dispatch_cases_v1 =
     [ (''search_messages'',
        \<lambda>rt apiClient bag. reading rt bag ''query'' (\<lambda>args.
           searchMessages_v1 rt apiClient
             [(''q'', arg args ''query''),
              (''channel_id'', arg args ''channel_id''),
              (''days'', arg args ''days''),
              (''date_from'', arg args ''date_from''),
              (''date_to'', arg args ''date_to''),
              (''importance_level'', arg args ''importance_level''),
              (''topic'', arg args ''topic''),
              (''has_media'', arg args ''has_media''),
              (''page'', arg args ''page''),
              (''page_size'', arg args ''page_size'')])),
       (''get_message'',
        \<lambda>rt apiClient bag. reading rt bag ''message_id'' (\<lambda>args.
           getMessage_v1 rt apiClient (arg args ''message_id''))),
       (''get_message_social_graph'',
        \<lambda>rt apiClient bag. reading rt bag ''message_id'' (\<lambda>args.
           getMessageSocialGraph_v1 rt apiClient (arg args ''message_id''))),
       (''semantic_search'',
        \<lambda>rt apiClient bag. reading rt bag ''query'' (\<lambda>args.
           semanticSearch_v1 rt apiClient
             [(''q'', arg args ''query''),
              (''similarity_threshold'', arg args ''similarity_threshold''),
              (''limit'', arg args ''limit''),
              (''channel_id'', arg args ''channel_id''),
              (''days'', arg args ''days'')])),
       (''find_similar_messages'',
        \<lambda>rt apiClient bag. reading rt bag ''message_id'' (\<lambda>args.
           findSimilarMessages_v1 rt apiClient (arg args ''message_id'')
             (Some [(''similarity_threshold'', arg args ''similarity_threshold''),
              (''limit'', arg args ''limit'')]))),
       (''unified_search'',
        \<lambda>rt apiClient bag. reading rt bag ''query'' (\<lambda>args.
           unifiedSearch_v1 rt apiClient
             [(''q'', arg args ''query''),
              (''mode'', arg args ''mode''),
              (''types'', arg args ''types''),
              (''limit_per_type'', arg args ''limit_per_type''),
              (''days'', arg args ''days'')])),
       (''list_channels'',
        \<lambda>rt apiClient bag. reading rt bag ''active_only'' (\<lambda>args.
           listChannels_v1 rt apiClient
             (Some [(''active_only'', arg args ''active_only''),
              (''rule'', arg args ''rule''),
              (''folder'', arg args ''folder''),
              (''verified_only'', arg args ''verified_only''),
              (''limit'', arg args ''limit'')]))),
       (''get_channel'',
        \<lambda>rt apiClient bag. reading rt bag ''channel_id'' (\<lambda>args.
           getChannel_v1 rt apiClient (arg args ''channel_id''))),
       (''get_channel_stats'',
        \<lambda>rt apiClient bag. reading rt bag ''channel_id'' (\<lambda>args.
           getChannelStats_v1 rt apiClient (arg args ''channel_id''))),
       (''get_channel_network'',
        \<lambda>rt apiClient bag. reading rt bag ''channel_id'' (\<lambda>args.
           getChannelNetwork_v1 rt apiClient (arg args ''channel_id'')
             (Some [(''depth'', arg args ''depth'')]))),
       (''search_entities'',
        \<lambda>rt apiClient bag. reading rt bag ''query'' (\<lambda>args.
           searchEntities_v1 rt apiClient
             [(''q'', arg args ''query''),
              (''source'', arg args ''source''),
              (''entity_type'', arg args ''entity_type''),
              (''limit'', arg args ''limit'')])),
       (''get_entity'',
        \<lambda>rt apiClient bag. reading rt bag ''entity_id'' (\<lambda>args.
           getEntity_v1 rt apiClient (arg args ''entity_id''))),
       (''get_entity_relationships'',
        \<lambda>rt apiClient bag. reading rt bag ''entity_id'' (\<lambda>args.
           getEntityRelationships_v1 rt apiClient (arg args ''entity_id''))),
       (''get_entity_mentions'',
        \<lambda>rt apiClient bag. reading rt bag ''entity_id'' (\<lambda>args.
           getEntityLinkedMessages_v1 rt apiClient (arg args ''entity_id'')
             (Some [(''limit'', arg args ''limit'')]))),
       (''list_events'',
        \<lambda>rt apiClient bag. reading rt bag ''tier'' (\<lambda>args.
           listEvents_v1 rt apiClient
             (Some [(''tier'', arg args ''tier''),
              (''days'', arg args ''days''),
              (''location'', arg args ''location''),
              (''limit'', arg args ''limit'')]))),
       (''get_event'',
        \<lambda>rt apiClient bag. reading rt bag ''event_id'' (\<lambda>args.
           getEvent_v1 rt apiClient (arg args ''event_id''))),
       (''get_event_messages'',
        \<lambda>rt apiClient bag. reading rt bag ''event_id'' (\<lambda>args.
           getEventMessages_v1 rt apiClient (arg args ''event_id''))),
       (''get_timeline_stats'',
        \<lambda>rt apiClient bag. reading rt bag ''granularity'' (\<lambda>args.
           getTimelineStats_v1 rt apiClient
             (Some [(''granularity'', arg args ''granularity''),
              (''channel_id'', arg args ''channel_id''),
              (''topic'', arg args ''topic''),
              (''importance_level'', arg args ''importance_level''),
              (''days'', arg args ''days'')]))),
       (''get_topic_distribution'',
        \<lambda>rt apiClient bag. reading rt bag ''days'' (\<lambda>args.
           getTopicDistribution_v1 rt apiClient
             (Some [(''days'', arg args ''days''),
              (''limit'', arg args ''limit'')]))),
       (''get_channel_analytics'',
        \<lambda>rt apiClient bag. reading rt bag ''days'' (\<lambda>args.
           getChannelAnalytics_v1 rt apiClient
             (Some [(''days'', arg args ''days''),
              (''limit'', arg args ''limit'')]))),
       (''get_map_messages'',
        \<lambda>rt apiClient bag. reading rt bag ''bbox'' (\<lambda>args.
           getMapMessages_v1 rt apiClient
             (Some [(''bbox'', arg args ''bbox''),
              (''days'', arg args ''days''),
              (''zoom'', arg args ''zoom'')]))),
       (''get_map_clusters'',
        \<lambda>rt apiClient bag. reading rt bag ''bbox'' (\<lambda>args.
           getMapClusters_v1 rt apiClient
             (Some [(''bbox'', arg args ''bbox''),
              (''tier'', arg args ''tier''),
              (''days'', arg args ''days'')]))),
       (''get_system_health'',
        \<lambda>rt apiClient bag. getHealth_v1 rt apiClient),
       (''get_system_status'',
        \<lambda>rt apiClient bag. getSystemStatus_v1 rt apiClient) ]"

definition handleToolCall_v1 ::
  "('j, 'u, 'n) runtime \<Rightarrow> client \<Rightarrow> string \<Rightarrow> 'n args option \<Rightarrow> 'j outcome" where
  "handleToolCall_v1 rt apiClient name bag =
     (case map_of dispatch_cases_v1 name of
        Some binding \<Rightarrow> binding rt apiClient bag
      | None \<Rightarrow> ([], Inl (''Unknown tool: '' @ name)))"

section \<open>The prompt table\<close>

text \<open>
  The arguments of a prompt are a record of strings; \<open>args k\<close> is the property read
  \<open>args.k\<close>, \<open>None\<close> when the key is missing. Strings are sequences of UTF-8
  bytes. One definition per case of \<open>getPromptContent\<close> gives its template.
\<close>

definition prompt_investigate_entity :: "(string \<rightharpoonup> string) \<Rightarrow> string" where
  "prompt_investigate_entity args =
     ''# Entity Investigation: '' @ interpolate (args ''entity_name'') @ [CHR 0x0A] @
     [CHR 0x0A] @
     ''## Investigation Workflow'' @ [CHR 0x0A] @
     [CHR 0x0A] @
     ''I'' @ [CHR 0x27] @ ''ll investigate '' @ [CHR 0x22] @ interpolate (args ''entity_name'') @ [CHR 0x22] @ '' using these steps:'' @ [CHR 0x0A] @
     [CHR 0x0A] @
     ''1. **Search Entities** - Search both curated (1,425+ entities) and OpenSanctions (10,000+) databases'' @ [CHR 0x0A] @
     ''2. **Get Entity Profile** - Retrieve full profile with aliases, metadata, and linked counts'' @ [CHR 0x0A] @
     ''3. **Get Relationships** - Query Wikidata for corporate connections, political positions, associates'' @ [CHR 0x0A] @
     ''4. **Find Mentions** - Get recent Telegram messages mentioning this entity'' @ [CHR 0x0A] @
     ''5. **Cross-Reference Events** - Check if entity is linked to any detected events'' @ [CHR 0x0A] @
     [CHR 0x0A] @
     ''### Tools to use:'' @ [CHR 0x0A] @
     ''- '' @ [CHR 0x60] @ ''search_entities'' @ [CHR 0x60] @ '' with query='' @ [CHR 0x22] @ interpolate (args ''entity_name'') @ [CHR 0x22] @ (if truthy (args ''entity_type'')
      then '', entity_type='' @ [CHR 0x22] @ interpolate (args ''entity_type'') @ [CHR 0x22]
      else []) @ [CHR 0x0A] @
     ''- '' @ [CHR 0x60] @ ''get_entity'' @ [CHR 0x60] @ '' for the matched entity'' @ [CHR 0x0A] @
     ''- '' @ [CHR 0x60] @ ''get_entity_relationships'' @ [CHR 0x60] @ '' for Wikidata connections'' @ [CHR 0x0A] @
     ''- '' @ [CHR 0x60] @ ''get_entity_mentions'' @ [CHR 0x60] @ '' for recent messages'' @ [CHR 0x0A] @
     [CHR 0x0A] @
     ''### Key things to look for:'' @ [CHR 0x0A] @
     ''- Sanctions status (OFAC, EU, UK lists)'' @ [CHR 0x0A] @
     ''- PEP (Politically Exposed Person) flags'' @ [CHR 0x0A] @
     ''- Corporate ownership chains'' @ [CHR 0x0A] @
     ''- Recent activity patterns'' @ [CHR 0x0A] @
     ''- Cross-channel mention frequency''"

definition prompt_validate_claim :: "(string \<rightharpoonup> string) \<Rightarrow> string" where
  "prompt_validate_claim args =
     ''# Claim Validation: Message #'' @ interpolate (args ''message_id'') @ [CHR 0x0A] @
     [CHR 0x0A] @
     ''## Validation Workflow'' @ [CHR 0x0A] @
     [CHR 0x0A] @
     ''I'' @ [CHR 0x27] @ ''ll validate the claims in message #'' @ interpolate (args ''message_id'') @ '' by:'' @ [CHR 0x0A] @
     [CHR 0x0A] @
     ''1. **Get Message Details** - Retrieve the full message with content and metadata'' @ [CHR 0x0A] @
     ''2. **Cross-Reference RSS** - Find correlated news articles from trusted sources'' @ [CHR 0x0A] @
     ''3. **Check Validation Status** - Get LLM validation result (confirms/contradicts/context)'' @ [CHR 0x0A] @
     ''4. **Find Event Context** - Check if message is part of a verified event cluster'' @ [CHR 0x0A] @
     [CHR 0x0A] @
     ''### Tools to use:'' @ [CHR 0x0A] @
     ''- '' @ [CHR 0x60] @ ''get_message'' @ [CHR 0x60] @ '' with message_id='' @ interpolate (args ''message_id'') @ [CHR 0x0A] @
     ''- '' @ [CHR 0x60] @ ''validate_message'' @ [CHR 0x60] @ '' to cross-reference with RSS'' @ [CHR 0x0A] @
     ''- '' @ [CHR 0x60] @ ''get_message_correlations'' @ [CHR 0x60] @ '' for related articles grouped by type'' @ [CHR 0x0A] @
     ''- '' @ [CHR 0x60] @ ''get_events_for_message'' @ [CHR 0x60] @ '' to find linked events'' @ [CHR 0x0A] @
     [CHR 0x0A] @
     ''### Validation Categories:'' @ [CHR 0x0A] @
     ''- **confirms** - RSS article supports the Telegram claim'' @ [CHR 0x0A] @
     ''- **contradicts** - RSS article refutes the claim'' @ [CHR 0x0A] @
     ''- **context** - RSS provides additional context'' @ [CHR 0x0A] @
     ''- **alternative** - RSS presents a different perspective'' @ [CHR 0x0A] @
     ''- **none** - No relevant RSS articles found'' @ [CHR 0x0A] @
     [CHR 0x0A] @
     ''### Trust Indicators:'' @ [CHR 0x0A] @
     ''- Event tier (rumor '' @ [CHR 0xE2, CHR 0x86, CHR 0x92] @ '' unconfirmed '' @ [CHR 0xE2, CHR 0x86, CHR 0x92] @ '' confirmed '' @ [CHR 0xE2, CHR 0x86, CHR 0x92] @ '' verified)'' @ [CHR 0x0A] @
     ''- Number of independent sources'' @ [CHR 0x0A] @
     ''- Cross-affiliation validation (pro-UA and pro-RU sources agree)''"

definition prompt_track_event :: "(string \<rightharpoonup> string) \<Rightarrow> string" where
  "prompt_track_event args =
     ''# Event Tracking'' @ (if truthy (args ''event_id'')
      then '': Event #'' @ interpolate (args ''event_id'')
      else []) @ [CHR 0x0A] @
     [CHR 0x0A] @
     ''## Event Tracking Workflow'' @ [CHR 0x0A] @
     [CHR 0x0A] @
     ''I'' @ [CHR 0x27] @ ''ll track this event through its lifecycle:'' @ [CHR 0x0A] @
     [CHR 0x0A] @
     ''1. **Get Event Details** - Retrieve event with contributing channels and messages'' @ [CHR 0x0A] @
     ''2. **Build Timeline** - Combine Telegram messages and RSS articles chronologically'' @ [CHR 0x0A] @
     ''3. **Analyze Sources** - Check channel affiliations and source diversity'' @ [CHR 0x0A] @
     ''4. **Check Tier Status** - Understand verification level'' @ [CHR 0x0A] @
     [CHR 0x0A] @
     (if truthy (args ''event_id'')
      then ''### Tools to use:'' @ [CHR 0x0A] @
         ''- '' @ [CHR 0x60] @ ''get_event'' @ [CHR 0x60] @ '' with event_id='' @ interpolate (args ''event_id'') @ '', include_messages=true, include_sources=true'' @ [CHR 0x0A] @
         ''- '' @ [CHR 0x60] @ ''get_event_timeline'' @ [CHR 0x60] @ '' for chronological view'' @ [CHR 0x0A] @
         ''- '' @ [CHR 0x60] @ ''get_event_stats'' @ [CHR 0x60] @ '' for overall event statistics''
      else []) @ [CHR 0x0A] @
     [CHR 0x0A] @
     (if truthy (args ''search_query'')
      then ''### Tools to use:'' @ [CHR 0x0A] @
         ''- '' @ [CHR 0x60] @ ''list_events'' @ [CHR 0x60] @ '' with search='' @ [CHR 0x22] @ interpolate (args ''search_query'') @ [CHR 0x22] @ [CHR 0x0A] @
         ''- Then '' @ [CHR 0x60] @ ''get_event'' @ [CHR 0x60] @ '' and '' @ [CHR 0x60] @ ''get_event_timeline'' @ [CHR 0x60] @ '' for the relevant event''
      else []) @ [CHR 0x0A] @
     [CHR 0x0A] @
     ''### Event Tier Progression:'' @ [CHR 0x0A] @
     ''| Tier | Criteria |'' @ [CHR 0x0A] @
     ''|------|----------|'' @ [CHR 0x0A] @
     ''| **rumor** | Single channel reporting |'' @ [CHR 0x0A] @
     ''| **unconfirmed** | 2-3 channels, same affiliation |'' @ [CHR 0x0A] @
     ''| **confirmed** | 3+ channels, cross-affiliation |'' @ [CHR 0x0A] @
     ''| **verified** | Human-verified with evidence |'' @ [CHR 0x0A] @
     [CHR 0x0A] @
     ''### Key Analysis Points:'' @ [CHR 0x0A] @
     ''- Time from first report to confirmation'' @ [CHR 0x0A] @
     ''- Channel diversity (affiliations)'' @ [CHR 0x0A] @
     ''- Geographic clustering'' @ [CHR 0x0A] @
     ''- Claim consistency across sources''"

definition prompt_analyze_channel :: "(string \<rightharpoonup> string) \<Rightarrow> string" where
  "prompt_analyze_channel args =
     ''# Channel Analysis: Channel #'' @ interpolate (args ''channel_id'') @ [CHR 0x0A] @
     [CHR 0x0A] @
     ''## Analysis Workflow'' @ [CHR 0x0A] @
     [CHR 0x0A] @
     ''I'' @ [CHR 0x27] @ ''ll provide a comprehensive analysis of this channel:'' @ [CHR 0x0A] @
     [CHR 0x0A] @
     ''1. **Get Channel Profile** - Basic info, affiliation, verification status'' @ [CHR 0x0A] @
     ''2. **Get Statistics** - Message counts, spam rate, topic distribution'' @ [CHR 0x0A] @
     ''3. **Analyze Network** - Semantic clusters and content relationships'' @ [CHR 0x0A] @
     ''4. **Map Influence** - Who forwards from/to this channel'' @ [CHR 0x0A] @
     ''5. **Recent Activity** - High-importance messages from last 7 days'' @ [CHR 0x0A] @
     [CHR 0x0A] @
     ''### Tools to use:'' @ [CHR 0x0A] @
     ''- '' @ [CHR 0x60] @ ''get_channel'' @ [CHR 0x60] @ '' with channel_id='' @ interpolate (args ''channel_id'') @ [CHR 0x0A] @
     ''- '' @ [CHR 0x60] @ ''get_channel_stats'' @ [CHR 0x60] @ '' for detailed statistics'' @ [CHR 0x0A] @
     ''- '' @ [CHR 0x60] @ ''get_channel_network'' @ [CHR 0x60] @ '' for content graph'' @ [CHR 0x0A] @
     ''- '' @ [CHR 0x60] @ ''get_channel_influence'' @ [CHR 0x60] @ '' for forward relationships'' @ [CHR 0x0A] @
     ''- '' @ [CHR 0x60] @ ''search_messages'' @ [CHR 0x60] @ '' with channel_id='' @ interpolate (args ''channel_id'') @ '', importance_level='' @ [CHR 0x22] @ ''high'' @ [CHR 0x22] @ '', days=7'' @ [CHR 0x0A] @
     [CHR 0x0A] @
     ''### Channel Metadata to Review:'' @ [CHR 0x0A] @
     ''- **Affiliation**: russia, ukraine, neutral, unknown'' @ [CHR 0x0A] @
     ''- **Source Type**: state_media, military_unit, journalist, osint_aggregator, etc.'' @ [CHR 0x0A] @
     ''- **Folder Rule**: archive_all (important) vs selective_archive (filtered)'' @ [CHR 0x0A] @
     ''- **Verified Badge**: Telegram verification status'' @ [CHR 0x0A] @
     [CHR 0x0A] @
     ''### Influence Indicators:'' @ [CHR 0x0A] @
     ''- Forwarding relationships (who amplifies this channel)'' @ [CHR 0x0A] @
     ''- Engagement patterns (views, forwards, reactions)'' @ [CHR 0x0A] @
     ''- Cross-affiliation reach''"

definition prompt_trace_narrative :: "(string \<rightharpoonup> string) \<Rightarrow> string" where
  "prompt_trace_narrative args =
     ''# Narrative Tracing'' @ (if truthy (args ''message_id'')
      then '': Starting from Message #'' @ interpolate (args ''message_id'')
      else []) @ [CHR 0x0A] @
     [CHR 0x0A] @
     ''## Narrative Tracing Workflow'' @ [CHR 0x0A] @
     [CHR 0x0A] @
     ''I'' @ [CHR 0x27] @ ''ll trace how this narrative spreads across the platform:'' @ [CHR 0x0A] @
     [CHR 0x0A] @
     ''1. **Find Origin** - Identify the earliest instance of this narrative'' @ [CHR 0x0A] @
     ''2. **Find Similar** - Use semantic search to find related messages'' @ [CHR 0x0A] @
     ''3. **Map Propagation** - Track forwards and timing across channels'' @ [CHR 0x0A] @
     ''4. **Analyze Reach** - Calculate engagement and cross-affiliation spread'' @ [CHR 0x0A] @
     [CHR 0x0A] @
     (if truthy (args ''message_id'')
      then ''### Tools to use:'' @ [CHR 0x0A] @
         ''- '' @ [CHR 0x60] @ ''get_message'' @ [CHR 0x60] @ '' with message_id='' @ interpolate (args ''message_id'') @ [CHR 0x0A] @
         ''- '' @ [CHR 0x60] @ ''find_similar_messages'' @ [CHR 0x60] @ '' to find semantic matches'' @ [CHR 0x0A] @
         ''- '' @ [CHR 0x60] @ ''get_message_social_graph'' @ [CHR 0x60] @ '' for forward chain'' @ [CHR 0x0A] @
         ''- '' @ [CHR 0x60] @ ''get_engagement_timeline'' @ [CHR 0x60] @ '' for virality pattern''
      else []) @ [CHR 0x0A] @
     [CHR 0x0A] @
     (if truthy (args ''search_query'')
      then ''### Tools to use:'' @ [CHR 0x0A] @
         ''- '' @ [CHR 0x60] @ ''semantic_search'' @ [CHR 0x60] @ '' with query='' @ [CHR 0x22] @ interpolate (args ''search_query'') @ [CHR 0x22] @ [CHR 0x0A] @
         ''- Then analyze the earliest result and trace forward''
      else []) @ [CHR 0x0A] @
     [CHR 0x0A] @
     ''### Propagation Indicators:'' @ [CHR 0x0A] @
     ''- **Forward Chains**: Direct resharing with attribution'' @ [CHR 0x0A] @
     ''- **Semantic Similarity**: Same content, different wording'' @ [CHR 0x0A] @
     ''- **Temporal Clustering**: Multiple posts within short window'' @ [CHR 0x0A] @
     ''- **Coordination Signals**: Near-simultaneous posting across channels''"

definition prompt_daily_briefing :: "(string \<rightharpoonup> string) \<Rightarrow> string" where
  "prompt_daily_briefing args =
     ''# Daily Intelligence Briefing'' @ [CHR 0x0A] @
     [CHR 0x0A] @
     ''## Briefing Parameters'' @ [CHR 0x0A] @
     ''- **Time Window**: '' @ (if truthy (args ''hours'') then interpolate (args ''hours'') else show_nat 24) @ '' hours'' @ [CHR 0x0A] @
     (if truthy (args ''focus_topic'')
      then ''- **Focus Topic**: '' @ interpolate (args ''focus_topic'')
      else ''- **Focus**: All topics'') @ [CHR 0x0A] @
     [CHR 0x0A] @
     ''## Briefing Workflow'' @ [CHR 0x0A] @
     [CHR 0x0A] @
     ''I'' @ [CHR 0x27] @ ''ll compile a comprehensive daily briefing:'' @ [CHR 0x0A] @
     [CHR 0x0A] @
     ''1. **High-Priority Messages** - Important messages from the time window'' @ [CHR 0x0A] @
     ''2. **Confirmed Events** - Events that reached confirmed/verified status'' @ [CHR 0x0A] @
     ''3. **Topic Trends** - What topics are most active'' @ [CHR 0x0A] @
     ''4. **Viral Content** - Most forwarded/engaged content'' @ [CHR 0x0A] @
     ''5. **System Status** - Platform health and any issues'' @ [CHR 0x0A] @
     [CHR 0x0A] @
     ''### Tools to use:'' @ [CHR 0x0A] @
     ''- '' @ [CHR 0x60] @ ''search_messages'' @ [CHR 0x60] @ '' with importance_level='' @ [CHR 0x22] @ ''high'' @ [CHR 0x22] @ '', days=1'' @ (if truthy (args ''focus_topic'')
      then '', topic='' @ [CHR 0x22] @ interpolate (args ''focus_topic'') @ [CHR 0x22]
      else []) @ [CHR 0x0A] @
     ''- '' @ [CHR 0x60] @ ''list_events'' @ [CHR 0x60] @ '' with tier_status='' @ [CHR 0x22] @ ''confirmed'' @ [CHR 0x22] @ '' or '' @ [CHR 0x22] @ ''verified'' @ [CHR 0x22] @ '', days=1'' @ [CHR 0x0A] @
     ''- '' @ [CHR 0x60] @ ''get_topic_distribution'' @ [CHR 0x60] @ '' with days=1'' @ [CHR 0x0A] @
     ''- '' @ [CHR 0x60] @ ''get_top_forwarded'' @ [CHR 0x60] @ '' with days=1'' @ [CHR 0x0A] @
     ''- '' @ [CHR 0x60] @ ''get_platform_stats_overview'' @ [CHR 0x60] @ '' for system health'' @ [CHR 0x0A] @
     [CHR 0x0A] @
     ''### Topics Tracked:'' @ [CHR 0x0A] @
     ''combat, equipment, casualties, movements, infrastructure, humanitarian, diplomatic, intelligence, propaganda, units, locations, general''"

definition prompt_geographic_sitrep :: "(string \<rightharpoonup> string) \<Rightarrow> string" where
  "prompt_geographic_sitrep args =
     ''# Geographic Situation Report: '' @ interpolate (args ''location'') @ [CHR 0x0A] @
     [CHR 0x0A] @
     ''## SITREP Parameters'' @ [CHR 0x0A] @
     ''- **Location**: '' @ interpolate (args ''location'') @ [CHR 0x0A] @
     ''- **Time Window**: '' @ (if truthy (args ''days'') then interpolate (args ''days'') else show_nat 7) @ '' days'' @ [CHR 0x0A] @
     [CHR 0x0A] @
     ''## SITREP Workflow'' @ [CHR 0x0A] @
     [CHR 0x0A] @
     ''I'' @ [CHR 0x27] @ ''ll compile a geographic situation report:'' @ [CHR 0x0A] @
     [CHR 0x0A] @
     ''1. **Geolocated Messages** - Messages with coordinates in this area'' @ [CHR 0x0A] @
     ''2. **Event Clusters** - Detected events in the region'' @ [CHR 0x0A] @
     ''3. **Activity Heatmap** - Density of activity over time'' @ [CHR 0x0A] @
     ''4. **Location Suggestions** - Verify the exact location match'' @ [CHR 0x0A] @
     [CHR 0x0A] @
     ''### Tools to use:'' @ [CHR 0x0A] @
     ''- '' @ [CHR 0x60] @ ''suggest_locations'' @ [CHR 0x60] @ '' with query='' @ [CHR 0x22] @ interpolate (args ''location'') @ [CHR 0x22] @ '' to verify location'' @ [CHR 0x0A] @
     ''- '' @ [CHR 0x60] @ ''unified_search'' @ [CHR 0x60] @ '' with location='' @ [CHR 0x22] @ interpolate (args ''location'') @ [CHR 0x22] @ '', days='' @ (if truthy (args ''days'') then interpolate (args ''days'') else show_nat 7) @ [CHR 0x0A] @
     ''- '' @ [CHR 0x60] @ ''get_map_messages'' @ [CHR 0x60] @ '' with bounds for the area'' @ [CHR 0x0A] @
     ''- '' @ [CHR 0x60] @ ''get_map_clusters'' @ [CHR 0x60] @ '' for event locations'' @ [CHR 0x0A] @
     ''- '' @ [CHR 0x60] @ ''get_map_heatmap'' @ [CHR 0x60] @ '' for activity density'' @ [CHR 0x0A] @
     [CHR 0x0A] @
     ''### Geographic Context:'' @ [CHR 0x0A] @
     ''- Use location autocomplete to find exact coordinates'' @ [CHR 0x0A] @
     ''- Bounding box format: '' @ [CHR 0x22] @ ''minLng,minLat,maxLng,maxLat'' @ [CHR 0x22] @ [CHR 0x0A] @
     ''- Coordinates are (latitude, longitude) in database but (longitude, latitude) in GeoJSON''"

definition prompt_platform_health_check :: "(string \<rightharpoonup> string) \<Rightarrow> string" where
  "prompt_platform_health_check args =
     ''# Platform Health Check'' @ [CHR 0x0A] @
     [CHR 0x0A] @
     ''## Health Check Workflow'' @ [CHR 0x0A] @
     [CHR 0x0A] @
     ''I'' @ [CHR 0x27] @ ''ll perform a comprehensive platform health check:'' @ [CHR 0x0A] @
     [CHR 0x0A] @
     ''1. **Overall Status** - Platform dashboard and service health'' @ [CHR 0x0A] @
     ''2. **Queue Health** - Redis worker queues and pending messages'' @ [CHR 0x0A] @
     ''3. **Enrichment Tasks** - Status of all 13 enrichment workers'' @ [CHR 0x0A] @
     ''4. **Data Quality** - Translation, embedding, and geolocation coverage'' @ [CHR 0x0A] @
     ''5. **LLM Performance** - Ollama model health and latency'' @ [CHR 0x0A] @
     [CHR 0x0A] @
     ''### Tools to use:'' @ [CHR 0x0A] @
     ''- '' @ [CHR 0x60] @ ''get_platform_dashboard'' @ [CHR 0x60] @ '' - Overview metrics'' @ [CHR 0x0A] @
     ''- '' @ [CHR 0x60] @ ''get_platform_stats_overview'' @ [CHR 0x60] @ '' - Comprehensive stats'' @ [CHR 0x0A] @
     ''- '' @ [CHR 0x60] @ ''get_worker_stats'' @ [CHR 0x60] @ '' - Queue health'' @ [CHR 0x0A] @
     ''- '' @ [CHR 0x60] @ ''get_enrichment_tasks'' @ [CHR 0x60] @ '' - Task status'' @ [CHR 0x0A] @
     ''- '' @ [CHR 0x60] @ ''get_data_quality_stats'' @ [CHR 0x60] @ '' - Coverage metrics'' @ [CHR 0x0A] @
     ''- '' @ [CHR 0x60] @ ''get_metrics_llm'' @ [CHR 0x60] @ '' - LLM performance'' @ [CHR 0x0A] @
     ''- '' @ [CHR 0x60] @ ''get_cache_stats'' @ [CHR 0x60] @ '' - Redis performance'' @ [CHR 0x0A] @
     [CHR 0x0A] @
     ''### Key Health Indicators:'' @ [CHR 0x0A] @
     ''| Metric | Healthy | Warning | Critical |'' @ [CHR 0x0A] @
     ''|--------|---------|---------|----------|'' @ [CHR 0x0A] @
     ''| Queue Depth | < 100 | 100-1000 | > 1000 |'' @ [CHR 0x0A] @
     ''| Processing Latency | < 1s | 1-5s | > 5s |'' @ [CHR 0x0A] @
     ''| Translation Coverage | > 95% | 80-95% | < 80% |'' @ [CHR 0x0A] @
     ''| LLM Availability | 100% | 95-99% | < 95% |''"

definition prompt_find_viral_content :: "(string \<rightharpoonup> string) \<Rightarrow> string" where
  "prompt_find_viral_content args =
     ''# Viral Content Discovery'' @ [CHR 0x0A] @
     [CHR 0x0A] @
     ''## Discovery Parameters'' @ [CHR 0x0A] @
     ''- **Time Window**: '' @ (if truthy (args ''days'') then interpolate (args ''days'') else show_nat 7) @ '' days'' @ [CHR 0x0A] @
     (if truthy (args ''topic'')
      then ''- **Topic Filter**: '' @ interpolate (args ''topic'')
      else ''- **Topics**: All'') @ [CHR 0x0A] @
     [CHR 0x0A] @
     ''## Discovery Workflow'' @ [CHR 0x0A] @
     [CHR 0x0A] @
     ''I'' @ [CHR 0x27] @ ''ll find viral content and influence patterns:'' @ [CHR 0x0A] @
     [CHR 0x0A] @
     ''1. **Top Forwarded** - Most forwarded messages'' @ [CHR 0x0A] @
     ''2. **Top Influencers** - Channels with highest reach'' @ [CHR 0x0A] @
     ''3. **Influence Network** - Cross-channel amplification patterns'' @ [CHR 0x0A] @
     ''4. **Engagement Trends** - Messages with unusual engagement velocity'' @ [CHR 0x0A] @
     [CHR 0x0A] @
     ''### Tools to use:'' @ [CHR 0x0A] @
     ''- '' @ [CHR 0x60] @ ''get_top_forwarded'' @ [CHR 0x60] @ '' with days='' @ (if truthy (args ''days'') then interpolate (args ''days'') else show_nat 7) @ [CHR 0x0A] @
     ''- '' @ [CHR 0x60] @ ''get_top_influencers'' @ [CHR 0x60] @ '' with days='' @ (if truthy (args ''days'') then interpolate (args ''days'') else show_nat 7) @ [CHR 0x0A] @
     ''- '' @ [CHR 0x60] @ ''get_influence_network'' @ [CHR 0x60] @ '' with days='' @ (if truthy (args ''days'') then interpolate (args ''days'') else show_nat 7) @ [CHR 0x0A] @
     ''- '' @ [CHR 0x60] @ ''get_viral_posts'' @ [CHR 0x60] @ '' - Currently tracked viral posts'' @ [CHR 0x0A] @
     (if truthy (args ''topic'')
      then ''- Filter results by topic='' @ [CHR 0x22] @ interpolate (args ''topic'') @ [CHR 0x22]
      else []) @ [CHR 0x0A] @
     [CHR 0x0A] @
     ''### Virality Indicators:'' @ [CHR 0x0A] @
     ''- **Views/hour** > 1000 = High velocity'' @ [CHR 0x0A] @
     ''- **Forwards** > 50 = Significant reach'' @ [CHR 0x0A] @
     ''- **Cross-affiliation** = Narrative breakthrough'' @ [CHR 0x0A] @
     ''- **Comment count** > 20 = High engagement''"

definition prompt_discover_connections :: "(string \<rightharpoonup> string) \<Rightarrow> string" where
  "prompt_discover_connections args =
     ''# Connection Discovery'' @ [CHR 0x0A] @
     [CHR 0x0A] @
     ''## Discovery Workflow'' @ [CHR 0x0A] @
     [CHR 0x0A] @
     ''I'' @ [CHR 0x27] @ ''ll discover hidden connections and relationships:'' @ [CHR 0x0A] @
     [CHR 0x0A] @
     (if truthy (args ''start_entity'')
      then ''### Starting from Entity: '' @ interpolate (args ''start_entity'') @ [CHR 0x0A] @
         ''- '' @ [CHR 0x60] @ ''search_entities'' @ [CHR 0x60] @ '' to find the entity'' @ [CHR 0x0A] @
         ''- '' @ [CHR 0x60] @ ''get_entity_relationships'' @ [CHR 0x60] @ '' for Wikidata connections'' @ [CHR 0x0A] @
         ''- '' @ [CHR 0x60] @ ''get_entity_mentions'' @ [CHR 0x60] @ '' for co-occurrence with other entities'' @ [CHR 0x0A] @
         ''- Look for shared mentions in same messages''
      else []) @ [CHR 0x0A] @
     [CHR 0x0A] @
     (if truthy (args ''start_channel'')
      then ''### Starting from Channel: '' @ interpolate (args ''start_channel'') @ [CHR 0x0A] @
         ''- '' @ [CHR 0x60] @ ''get_channel_influence'' @ [CHR 0x60] @ '' for forward relationships'' @ [CHR 0x0A] @
         ''- '' @ [CHR 0x60] @ ''get_influence_network'' @ [CHR 0x60] @ '' for broader patterns'' @ [CHR 0x0A] @
         ''- '' @ [CHR 0x60] @ ''get_channel_network'' @ [CHR 0x60] @ '' for semantic content clusters'' @ [CHR 0x0A] @
         ''- Look for coordinated posting patterns''
      else []) @ [CHR 0x0A] @
     [CHR 0x0A] @
     ''### Connection Types:'' @ [CHR 0x0A] @
     ''- **Entity '' @ [CHR 0xE2, CHR 0x86, CHR 0x92] @ '' Entity**: Shared organizations, positions, transactions'' @ [CHR 0x0A] @
     ''- **Channel '' @ [CHR 0xE2, CHR 0x86, CHR 0x92] @ '' Channel**: Forward relationships, timing correlation'' @ [CHR 0x0A] @
     ''- **Entity '' @ [CHR 0xE2, CHR 0x86, CHR 0x92] @ '' Channel**: Frequent mentions, source attribution'' @ [CHR 0x0A] @
     ''- **Cross-Affiliation**: Unexpected connections across opposing sides''"

definition getPromptContent :: "string \<Rightarrow> (string \<rightharpoonup> string) \<Rightarrow> string" where
  "getPromptContent name args =
     (if name = ''investigate_entity'' then prompt_investigate_entity args
      else if name = ''validate_claim'' then prompt_validate_claim args
      else if name = ''track_event'' then prompt_track_event args
      else if name = ''analyze_channel'' then prompt_analyze_channel args
      else if name = ''trace_narrative'' then prompt_trace_narrative args
      else if name = ''daily_briefing'' then prompt_daily_briefing args
      else if name = ''geographic_sitrep'' then prompt_geographic_sitrep args
      else if name = ''platform_health_check'' then prompt_platform_health_check args
      else if name = ''find_viral_content'' then prompt_find_viral_content args
      else if name = ''discover_connections'' then prompt_discover_connections args
      else ''Unknown prompt: '' @ name)"

text \<open>The argument keys that the template of a prompt reads.\<close>

definition referenced_keys :: "string \<Rightarrow> string list" where
  "referenced_keys name =
     (if name = ''investigate_entity'' then [''entity_name'', ''entity_type'']
      else if name = ''validate_claim'' then [''message_id'']
      else if name = ''track_event'' then [''event_id'', ''search_query'']
      else if name = ''analyze_channel'' then [''channel_id'']
      else if name = ''trace_narrative'' then [''message_id'', ''search_query'']
      else if name = ''daily_briefing'' then [''hours'', ''focus_topic'']
      else if name = ''geographic_sitrep'' then [''location'', ''days'']
      else if name = ''platform_health_check'' then []
      else if name = ''find_viral_content'' then [''days'', ''topic'']
      else if name = ''discover_connections'' then [''start_entity'', ''start_channel'']
      else [])"

section \<open>Start-up configuration and example inputs\<close>

text \<open>
  The client that the entry point builds from the three environment variables it reads;
  the identity-proxy fields are left unset there.
\<close>

definition startup_client :: "string option \<Rightarrow> string option \<Rightarrow> string option \<Rightarrow> client" where
  "startup_client OSINT_API_URL OSINT_API_KEY OSINT_JWT_TOKEN =
     OsintApiClient
       \<lparr> baseUrl =
           (if truthy OSINT_API_URL then interpolate OSINT_API_URL else ''http://localhost:8000''),
         apiKey = OSINT_API_KEY,
         jwtToken = OSINT_JWT_TOKEN,
         oryUserId = None,
         oryUserEmail = None,
         oryUserRole = None \<rparr>"

definition example_client :: client where
  "example_client = startup_client None None None"

text \<open>The numbers 0, 1 and 7, which print as those digits.\<close>

datatype example_number = Zero | One | Seven

fun example_Number_toString :: "example_number \<Rightarrow> string" where
  "example_Number_toString Zero = ''0''"
| "example_Number_toString One = ''1''"
| "example_Number_toString Seven = ''7''"

text \<open>
  An example URL library, covering what the worked examples need: strings
  \<open>http://<host><path>\<close> with an optional \<open>?<query>\<close> and \<open>#<fragment>\<close>, in
  lower case and of characters that the URL standard leaves as they are. As the standard
  prescribes, the path ends at the first \<open>?\<close> or \<open>#\<close>, a segment \<open>.\<close> is dropped
  and a segment \<open>..\<close> removes the segment before it, either leaving an empty segment
  when it is the last one. A string without \<open>http://\<close> and a host is refused.
\<close>

record example_URL =
  url_origin :: string
  url_path :: "string list"
  url_query :: string
  url_fragment :: string

fun split_path :: "string \<Rightarrow> string list" where
  "split_path [] = [[]]"
| "split_path (c # cs) =
     (if c = CHR ''/'' then [] # split_path cs
      else case split_path cs of [] \<Rightarrow> [[c]] | s # ss \<Rightarrow> (c # s) # ss)"

fun resolve_dots :: "string list \<Rightarrow> string list \<Rightarrow> string list" where
  "resolve_dots out [] = out"
| "resolve_dots out [s] =
     (if s = ''..'' then butlast out @ [[]]
      else if s = ''.'' then out @ [[]]
      else out @ [s])"
| "resolve_dots out (s # t # ss) =
     (if s = ''..'' then resolve_dots (butlast out) (t # ss)
      else if s = ''.'' then resolve_dots out (t # ss)
      else resolve_dots (out @ [s]) (t # ss))"

definition example_new_URL :: "string \<Rightarrow> string + example_URL" where
  "example_new_URL s =
     (let rest = drop 7 s;
          host = takeWhile (\<lambda>c. c \<notin> set ''/?#'') rest;
          after = dropWhile (\<lambda>c. c \<notin> set ''/?#'') rest;
          path = takeWhile (\<lambda>c. c \<notin> set ''?#'') after;
          tail = dropWhile (\<lambda>c. c \<notin> set ''?#'') after
      in if take 7 s = ''http://'' \<and> host \<noteq> [] then
           Inr \<lparr> url_origin = ''http://'' @ host,
                 url_path = resolve_dots [] (split_path (drop 1 path)),
                 url_query =
                   (if take 1 tail = ''?'' then takeWhile (\<lambda>c. c \<noteq> CHR ''#'') (drop 1 tail)
                    else []),
                 url_fragment = dropWhile (\<lambda>c. c \<noteq> CHR ''#'') tail \<rparr>
         else Inl ''Invalid URL'')"

definition example_searchParams_append :: "example_URL \<Rightarrow> string \<Rightarrow> string \<Rightarrow> example_URL" where
  "example_searchParams_append url key val =
     url\<lparr> url_query :=
           (if url_query url = [] then key @ ''='' @ val
            else url_query url @ ''&'' @ key @ ''='' @ val) \<rparr>"

definition example_URL_toString :: "example_URL \<Rightarrow> string" where
  "example_URL_toString url =
     url_origin url @ concat (map (\<lambda>s. ''/'' @ s) (url_path url)) @
     (if url_query url = [] then [] else ''?'' @ url_query url) @ url_fragment url"

text \<open>
  A runtime for worked examples: every \<open>fetch\<close> gets the given answer, a JSON value is
  its own text, and the TypeError messages are those Node prints.
\<close>

definition example_runtime :: "fetch_outcome \<Rightarrow> (string, example_URL, example_number) runtime" where
  "example_runtime answer =
     \<lparr> Number_toString = example_Number_toString,
       to_primitive_error = ''Cannot convert object to primitive value'',
       new_URL = example_new_URL,
       searchParams_append = example_searchParams_append,
       URL_toString = example_URL_toString,
       fetch = (\<lambda>request. answer),
       response_json = Inr,
       JSON_stringify = (\<lambda>j. j),
       JSON_stringify_indent2 = (\<lambda>j. j),
       json_truthy = (\<lambda>j. j \<noteq> []),
       undefined_read =
         (\<lambda>k. ''Cannot read properties of undefined (reading '' @ [CHR 0x27] @ k @ [CHR 0x27] @ '')'') \<rparr>"

section \<open>Predicates used in the statements\<close>

text \<open>The property names that the input schema of the named tool declares.\<close>

definition declared_fields :: "string \<Rightarrow> string list" where
  "declared_fields name =
     (case find (\<lambda>t. tool_name t = name) tools of
        None \<Rightarrow> []
      | Some t \<Rightarrow> map fst (properties t))"

text \<open>
  A binding respects a tool descriptor when its outcome is the same on any two argument
  bags that agree on the properties the descriptor declares.
\<close>

definition respects_schema :: "Tool \<Rightarrow> ('j, 'u, 'n) binding \<Rightarrow> bool" where
  "respects_schema t binding =
     (\<forall>rt apiClient a b. (\<forall>k \<in> set (map fst (properties t)). a k = b k) \<longrightarrow>
        binding rt apiClient (Some a) = binding rt apiClient (Some b))"

text \<open>An outcome in which at most one request was issued, and that one with GET.\<close>

definition one_GET :: "'j outcome \<Rightarrow> bool" where
  "one_GET out =
     (length (requests (fst out)) \<le> 1 \<and>
      list_all (\<lambda>r. req_method r = GET) (requests (fst out)))"

section \<open>Unfolding the client methods\<close>

lemmas client_defs =
  searchMessages_def getMessage_def getAdjacentMessages_def getMessageAlbum_def
  getMessageNetwork_def getMessageTimeline_def semanticSearch_def findSimilarMessages_def
  getTags_def searchByTags_def unifiedSearch_def listChannels_def getChannel_def
  getChannelStats_def getChannelNetwork_def getMessageSocialGraph_def
  getChannelInfluence_def getInfluenceNetwork_def getEngagementTimeline_def
  getMessageComments_def getTopForwarded_def getTopInfluencers_def searchEntities_def
  getEntity_def getEntityRelationships_def getEntityMessages_def listEvents_def
  getEventStats_def getEvent_def getEventTimeline_def getEventsForMessage_def
  getTimelineStats_def getTopicDistribution_def getLanguageDistribution_def
  getChannelAnalytics_def getHeatmap_def getEntityAnalytics_def getMediaAnalytics_def
  getMapMessages_def getMapClusters_def getMapEvents_def getMapHeatmap_def
  suggestLocations_def reverseGeocode_def getUnifiedStream_def validateMessage_def
  getCorrelations_def getComment_def translateComment_def getMediaGallery_def
  getAdminDashboard_def getAdminStatsOverview_def getAdminStatsQuality_def
  getAdminStatsProcessing_def getAdminStatsStorage_def getAdminWorkersStats_def
  getAdminEnrichmentTasks_def getAdminCacheStats_def getAdminAuditStats_def
  getAdminSpamStats_def getAdminChannelsStats_def getAdminEntitiesStats_def
  getAdminFeedsStats_def getAdminPromptsStats_def getAdminCommentsStats_def
  getAdminViralPosts_def getHealth_def getHardwareConfig_def getSystemStatus_def
  getMetricsOverview_def getMetricsLLM_def getMetricsPipeline_def getMetricsServices_def
  listModels_def getModelHealth_def

lemmas client_v1_defs =
  searchMessages_v1_def getMessage_v1_def getAdjacentMessages_v1_def semanticSearch_v1_def
  findSimilarMessages_v1_def unifiedSearch_v1_def listChannels_v1_def getChannel_v1_def
  getChannelStats_v1_def searchEntities_v1_def getEntity_v1_def
  getEntityRelationships_v1_def getEntityLinkedMessages_v1_def listEvents_v1_def
  getEvent_v1_def getEventMessages_v1_def getTimelineStats_v1_def
  getTopicDistribution_v1_def getChannelAnalytics_v1_def getMessageSocialGraph_v1_def
  getChannelNetwork_v1_def getMapMessages_v1_def getMapClusters_v1_def getHealth_v1_def
  getSystemStatus_v1_def

section \<open>Catalog and dispatcher\<close>

lemma case_labels: "map fst dispatch_cases = map tool_name tools"
  by (simp add: dispatch_cases_def tools_def)

lemma tool_names_distinct: "distinct (map tool_name tools)"
  by (simp add: tools_def)

lemma case_labels_v1: "map fst dispatch_cases_v1 = map tool_name tools_v1"
  by (simp add: dispatch_cases_v1_def tools_v1_def)

lemma tool_names_v1_distinct: "distinct (map tool_name tools_v1)"
  by (simp add: tools_v1_def)

text \<open>
  C1. The tool catalog and the dispatcher are in bijection: no name occurs twice in the
  catalog, no label occurs twice among the cases of \<open>handleToolCall\<close>, and the set of
  case labels is the set of catalog names. This holds of the current entry point and of
  its first revision.
\<close>

theorem catalog_dispatcher_bijection:
  "distinct (map tool_name tools) \<and>
   distinct (map fst dispatch_cases) \<and>
   set (map fst dispatch_cases) = set (map tool_name tools) \<and>
   distinct (map tool_name tools_v1) \<and>
   distinct (map fst dispatch_cases_v1) \<and>
   set (map fst dispatch_cases_v1) = set (map tool_name tools_v1)"
  by (simp only: case_labels tool_names_distinct case_labels_v1 tool_names_v1_distinct simp_thms)

section \<open>Unknown tools\<close>

lemma handleToolCall_unknown:
  fixes rt :: "('j, 'u, 'n) runtime"
  assumes "name \<notin> set (map fst (dispatch_cases :: (string \<times> ('j, 'u, 'n) binding) list))"
  shows "handleToolCall rt apiClient name bag = ([], Inl (''Unknown tool: '' @ name))"
proof -
  from assms have "map_of (dispatch_cases :: (string \<times> ('j, 'u, 'n) binding) list) name = None"
    by (simp add: map_of_eq_None_iff)
  then show ?thesis
    by (simp add: handleToolCall_def)
qed

text \<open>
  C3. For a tool name that is no case label of the dispatcher, and any argument bag
  (present or absent), the server answers the call-tool request with a result, not a
  failure: the content is the single text block \<open>Error: Unknown tool: <name>\<close>,
  \<open>isError\<close> is set, and no call to the URL library or the network has been made.
\<close>

theorem unknown_tool_error:
  fixes rt :: "('j, 'u, 'n) runtime"
  assumes "name \<notin> set (map fst (dispatch_cases :: (string \<times> ('j, 'u, 'n) binding) list))"
  shows "serve rt apiClient (CallTool name bag) =
           ([], ToolResult
                  \<lparr> content = [\<lparr> block_type = ''text'',
                                 block_text = ''Error: Unknown tool: '' @ name \<rparr>],
                    isError = Some True \<rparr>)"
  using assms
  by (simp add: serve_def server_def callToolHandler_def handleToolCall_unknown)

theorem unknown_tool_error_witness:
  "''frobnicate'' \<notin> set (map fst (dispatch_cases :: (string \<times> (string, example_URL, example_number) binding) list)) \<and>
   serve (example_runtime (Response 200 ''{}'')) example_client
       (CallTool ''frobnicate'' (Some Map.empty)) =
     ([], ToolResult
            \<lparr> content = [\<lparr> block_type = ''text'',
                           block_text = ''Error: Unknown tool: frobnicate'' \<rparr>],
              isError = Some True \<rparr>)"
proof -
  have h: "''frobnicate'' \<notin> set (map fst (dispatch_cases :: (string \<times> (string, example_URL, example_number) binding) list))"
    by (simp add: dispatch_cases_def)
  show ?thesis
    using h unknown_tool_error [OF h, of "example_runtime (Response 200 ''{}'')"
        example_client "Some Map.empty"]
    by simp
qed

section \<open>The header set of the client\<close>

lemma client_headers_cases:
  "client_headers (OsintApiClient config) =
     (if truthy (jwtToken config) then
        json_headers(''Authorization'' \<mapsto> ''Bearer '' @ interpolate (jwtToken config))
      else if truthy (apiKey config) then
        json_headers(''Authorization'' \<mapsto> ''Bearer '' @ interpolate (apiKey config))
      else if truthy (oryUserId config) then
        (\<lambda>h. if h = ''X-User-ID'' then oryUserId config
             else if h = ''X-User-Email'' \<and> truthy (oryUserEmail config) then oryUserEmail config
             else if h = ''X-User-Role'' \<and> truthy (oryUserRole config) then oryUserRole config
             else json_headers h)
      else json_headers)"
  by (auto simp add: OsintApiClient_def Let_def fun_eq_iff)

text \<open>
  C2. The header set that the constructor computes follows strict precedence, where a
  field is set when it is present and not the empty string (the truthiness test of the
  constructor): a set \<open>jwtToken\<close> gives \<open>Authorization: Bearer <jwtToken>\<close>; else a
  set \<open>apiKey\<close> gives \<open>Authorization: Bearer <apiKey>\<close>; else a set identity-proxy
  user id gives \<open>X-User-ID\<close>, with \<open>X-User-Email\<close> and \<open>X-User-Role\<close> exactly when
  they are set, and no \<open>Authorization\<close>; else the headers are the two JSON headers
  alone, none of which authenticates.
\<close>

theorem auth_header_precedence:
  "(jwtToken config = Some jwt \<and> jwt \<noteq> [] \<longrightarrow>
      client_headers (OsintApiClient config) =
        json_headers(''Authorization'' \<mapsto> ''Bearer '' @ jwt)) \<and>
   (\<not> truthy (jwtToken config) \<and> apiKey config = Some key \<and> key \<noteq> [] \<longrightarrow>
      client_headers (OsintApiClient config) =
        json_headers(''Authorization'' \<mapsto> ''Bearer '' @ key)) \<and>
   (\<not> truthy (jwtToken config) \<and> \<not> truthy (apiKey config) \<and>
    oryUserId config = Some uid \<and> uid \<noteq> [] \<longrightarrow>
      client_headers (OsintApiClient config) =
        (\<lambda>h. if h = ''X-User-ID'' then Some uid
             else if h = ''X-User-Email'' \<and> truthy (oryUserEmail config) then oryUserEmail config
             else if h = ''X-User-Role'' \<and> truthy (oryUserRole config) then oryUserRole config
             else json_headers h)) \<and>
   (\<not> truthy (jwtToken config) \<and> \<not> truthy (apiKey config) \<and> \<not> truthy (oryUserId config) \<longrightarrow>
      client_headers (OsintApiClient config) = json_headers) \<and>
   dom json_headers = {''Content-Type'', ''Accept''}"
  by (auto simp add: client_headers_cases json_headers_def)

theorem auth_header_precedence_witness:
  "client_headers (OsintApiClient
      \<lparr> baseUrl = ''http://localhost:8000/'', apiKey = Some ''ak_1'', jwtToken = Some ''J'',
        oryUserId = Some ''u'', oryUserEmail = None, oryUserRole = None \<rparr>) =
     json_headers(''Authorization'' \<mapsto> ''Bearer J'') \<and>
   client_headers (OsintApiClient
      \<lparr> baseUrl = ''http://localhost:8000/'', apiKey = Some ''ak_1'', jwtToken = None,
        oryUserId = Some ''u'', oryUserEmail = None, oryUserRole = None \<rparr>) =
     json_headers(''Authorization'' \<mapsto> ''Bearer ak_1'') \<and>
   client_headers (OsintApiClient
      \<lparr> baseUrl = ''http://localhost:8000/'', apiKey = None, jwtToken = Some '''',
        oryUserId = Some ''u'', oryUserEmail = Some ''e@x'', oryUserRole = None \<rparr>) =
     (\<lambda>h. if h = ''X-User-ID'' then Some ''u''
          else if h = ''X-User-Email'' then Some ''e@x''
          else json_headers h) \<and>
   client_headers (OsintApiClient
      \<lparr> baseUrl = ''http://localhost:8000/'', apiKey = None, jwtToken = None,
        oryUserId = None, oryUserEmail = Some ''e@x'', oryUserRole = Some ''admin'' \<rparr>) =
     json_headers"
  using
    auth_header_precedence [of
      "\<lparr> baseUrl = ''http://localhost:8000/'', apiKey = Some ''ak_1'', jwtToken = Some ''J'',
         oryUserId = Some ''u'', oryUserEmail = None, oryUserRole = None \<rparr>" "''J''" "''ak_1''" "''u''"]
    auth_header_precedence [of
      "\<lparr> baseUrl = ''http://localhost:8000/'', apiKey = Some ''ak_1'', jwtToken = None,
         oryUserId = Some ''u'', oryUserEmail = None, oryUserRole = None \<rparr>" "''J''" "''ak_1''" "''u''"]
    auth_header_precedence [of
      "\<lparr> baseUrl = ''http://localhost:8000/'', apiKey = None, jwtToken = Some '''',
         oryUserId = Some ''u'', oryUserEmail = Some ''e@x'', oryUserRole = None \<rparr>" "''J''" "''ak_1''" "''u''"]
    auth_header_precedence [of
      "\<lparr> baseUrl = ''http://localhost:8000/'', apiKey = None, jwtToken = None,
         oryUserId = None, oryUserEmail = Some ''e@x'', oryUserRole = Some ''admin'' \<rparr>" "''J''" "''ak_1''" "''u''"]
  by (simp add: fun_eq_iff)

text \<open>
  The first revision of the constructor has the same first branch, sends an API key in
  its own header, and has no identity-proxy branch.
\<close>

lemma first_revision_headers:
  "client_headers (OsintApiClient_v1 config) =
     (if truthy (jwtToken_v1 config) then
        json_headers(''Authorization'' \<mapsto> ''Bearer '' @ interpolate (jwtToken_v1 config))
      else if truthy (apiKey_v1 config) then
        json_headers(''X-API-Key'' := apiKey_v1 config)
      else json_headers)"
  by (simp add: OsintApiClient_v1_def)

section \<open>GET and POST\<close>

lemma example_base: "client_baseUrl example_client = ''http://localhost:8000''"
  by (simp add: example_client_def startup_client_def OsintApiClient_def
      strip_trailing_slash_def)

lemma example_headers: "client_headers example_client = json_headers"
  by (simp add: example_client_def startup_client_def OsintApiClient_def)

text \<open>
  C4. When the response to the request of a \<open>get\<close> or of a \<open>post\<close> has a status \<open>s\<close>
  outside 200..299 and the body text \<open>b\<close>, the call rejects with the message
  \<open>API Error <s>: <b>\<close>, the status in decimal and the body unchanged. (For \<open>get\<close>
  a response presupposes that the request was built: the URL constructor accepted the
  URL and no conversion of a parameter threw.)
\<close>

theorem api_error_message:
  "\<not> response_ok s \<Longrightarrow>
   (get_request rt this endpoint params = (evs, Inr request) \<and>
    fetch rt request = Response s b \<longrightarrow>
      get rt this endpoint params =
        (evs @ [Fetch request], Inl (''API Error '' @ show_nat s @ '': '' @ b))) \<and>
   (fetch rt (post_request rt this endpoint body) = Response s b \<longrightarrow>
      post rt this endpoint body =
        ([Fetch (post_request rt this endpoint body)],
         Inl (''API Error '' @ show_nat s @ '': '' @ b)))"
  by (simp add: get_def post_def Let_def)

theorem api_error_message_witness:
  "\<not> response_ok 404 \<and>
   get_request (example_runtime (Response 404 ''not found'')) example_client
       ''/api/comments/7/translate'' None =
     ([NewURL ''http://localhost:8000/api/comments/7/translate''],
      Inr \<lparr> req_method = GET, req_url = ''http://localhost:8000/api/comments/7/translate'',
            req_headers = json_headers, req_body = None \<rparr>) \<and>
   snd (get (example_runtime (Response 404 ''not found'')) example_client
          ''/api/comments/7/translate'' None) =
     Inl ''API Error 404: not found'' \<and>
   snd (post (example_runtime (Response 404 ''not found'')) example_client
          ''/api/comments/7/translate'' None) =
     Inl ''API Error 404: not found''"
proof -
  let ?rt = "example_runtime (Response 404 ''not found'')"
  have h: "\<not> response_ok 404"
    by (simp add: response_ok_def)
  have r: "get_request ?rt example_client ''/api/comments/7/translate'' None =
     ([NewURL ''http://localhost:8000/api/comments/7/translate''],
      Inr \<lparr> req_method = GET, req_url = ''http://localhost:8000/api/comments/7/translate'',
            req_headers = json_headers, req_body = None \<rparr>)"
    by (simp add: get_request_def example_base example_headers example_runtime_def
        example_new_URL_def example_URL_toString_def Let_def)
  have f: "\<And>q. fetch ?rt q = Response 404 ''not found''"
    by (simp add: example_runtime_def)
  from api_error_message [OF h, of ?rt example_client "''/api/comments/7/translate''" None
      "[NewURL ''http://localhost:8000/api/comments/7/translate'']" _ "''not found''" None] r f
  have "snd (get ?rt example_client ''/api/comments/7/translate'' None) =
          Inl (''API Error '' @ show_nat 404 @ '': '' @ ''not found'') \<and>
        snd (post ?rt example_client ''/api/comments/7/translate'' None) =
          Inl (''API Error '' @ show_nat 404 @ '': '' @ ''not found'')"
    by simp
  then have "snd (get ?rt example_client ''/api/comments/7/translate'' None) =
          Inl ''API Error 404: not found'' \<and>
        snd (post ?rt example_client ''/api/comments/7/translate'' None) =
          Inl ''API Error 404: not found''"
    by (simp add: show_nat.simps)
  with h r show ?thesis
    by (intro conjI) simp_all
qed

lemma append_params_entries:
  "list_all2 (\<lambda>(k, v) (k', s). k' = k \<and> js_String rt v = Inr s)
     (filter (\<lambda>(k, v). v \<noteq> JUndefined \<and> v \<noteq> JNull) ps) es \<Longrightarrow>
   append_params rt u ps =
     (map (\<lambda>(k, s). SearchParamsAppend k s) es,
      Inr (foldl (\<lambda>url (k, s). searchParams_append rt url k s) u es))"
proof (induction rt u ps arbitrary: es rule: append_params.induct)
  case (1 rt url)
  then show ?case by simp
next
  case (2 rt url key val rest)
  show ?case
  proof (cases "val \<noteq> JUndefined \<and> val \<noteq> JNull")
    case True
    with "2.prems" obtain s es' where es: "es = (key, s) # es'"
      and s: "js_String rt val = Inr s"
      and rest: "list_all2 (\<lambda>(k, v) (k', s). k' = k \<and> js_String rt v = Inr s)
                   (filter (\<lambda>(k, v). v \<noteq> JUndefined \<and> v \<noteq> JNull) rest) es'"
      by (auto simp add: list_all2_Cons1)
    from "2.IH"(1) [OF True s rest] True s es show ?thesis
      by simp
  next
    case False
    with "2.prems" have "list_all2 (\<lambda>(k, v) (k', s). k' = k \<and> js_String rt v = Inr s)
        (filter (\<lambda>(k, v). v \<noteq> JUndefined \<and> v \<noteq> JNull) rest) es"
      by auto
    from "2.IH"(2) [OF False this] False show ?thesis
      by auto
  qed
qed

text \<open>
  C5. When the URL constructor accepts the URL of a \<open>get\<close> and the values convert to
  strings, the calls that \<open>get\<close> makes are: the construction of the URL, one
  \<open>searchParams.append\<close> for each entry of \<open>params\<close> whose value is neither undefined
  nor null, in order and with the value converted by \<open>String\<close>, and the \<open>fetch\<close> of
  the URL so extended, with GET. So an entry is serialized if and only if its value is
  neither undefined nor null. In particular \<open>false\<close> and a number that prints as \<open>0\<close>
  are sent as \<open>false\<close> and \<open>0\<close>, and undefined and null entries are left out.
\<close>

theorem query_string_entries:
  assumes "new_URL rt (client_baseUrl this @ endpoint) = Inr u"
  shows "(list_all2 (\<lambda>(k, v) (k', s). k' = k \<and> js_String rt v = Inr s)
            (filter (\<lambda>(k, v). v \<noteq> JUndefined \<and> v \<noteq> JNull) ps) es \<longrightarrow>
          fst (get rt this endpoint (Some ps)) =
            NewURL (client_baseUrl this @ endpoint) #
            map (\<lambda>(k, s). SearchParamsAppend k s) es @
            [Fetch \<lparr> req_method = GET,
                     req_url = URL_toString rt
                       (foldl (\<lambda>url (k, s). searchParams_append rt url k s) u es),
                     req_headers = client_headers this,
                     req_body = None \<rparr>]) \<and>
         (Number_toString rt zero = ''0'' \<longrightarrow>
          appended (fst (get rt this endpoint
            (Some [(''has_media'', JBool False), (''page'', JNum zero),
                   (''topic'', JUndefined), (''language'', JNull)]))) =
            [(''has_media'', ''false''), (''page'', ''0'')])"
proof (intro conjI impI)
  assume "list_all2 (\<lambda>(k, v) (k', s). k' = k \<and> js_String rt v = Inr s)
            (filter (\<lambda>(k, v). v \<noteq> JUndefined \<and> v \<noteq> JNull) ps) es"
  from append_params_entries [OF this, of u] assms
  show "fst (get rt this endpoint (Some ps)) =
            NewURL (client_baseUrl this @ endpoint) #
            map (\<lambda>(k, s). SearchParamsAppend k s) es @
            [Fetch \<lparr> req_method = GET,
                     req_url = URL_toString rt
                       (foldl (\<lambda>url (k, s). searchParams_append rt url k s) u es),
                     req_headers = client_headers this,
                     req_body = None \<rparr>]"
    by (simp add: get_def get_request_def split: fetch_outcome.split)
next
  assume "Number_toString rt zero = ''0''"
  with assms
  show "appended (fst (get rt this endpoint
            (Some [(''has_media'', JBool False), (''page'', JNum zero),
                   (''topic'', JUndefined), (''language'', JNull)]))) =
            [(''has_media'', ''false''), (''page'', ''0'')]"
    by (simp add: get_def get_request_def split: fetch_outcome.split)
qed

theorem query_string_entries_witness:
  "new_URL (example_runtime (Response 200 ''{}''))
       (client_baseUrl example_client @ ''/api/messages'') =
     Inr \<lparr> url_origin = ''http://localhost:8000'', url_path = [''api'', ''messages''],
           url_query = [], url_fragment = [] \<rparr> \<and>
   Number_toString (example_runtime (Response 200 ''{}'')) Zero = ''0'' \<and>
   fst (get (example_runtime (Response 200 ''{}'')) example_client ''/api/messages''
         (Some [(''has_media'', JBool False), (''page'', JNum Zero),
                (''topic'', JUndefined), (''language'', JNull)])) =
     [NewURL ''http://localhost:8000/api/messages'',
      SearchParamsAppend ''has_media'' ''false'',
      SearchParamsAppend ''page'' ''0'',
      Fetch \<lparr> req_method = GET,
              req_url = ''http://localhost:8000/api/messages?has_media=false&page=0'',
              req_headers = json_headers,
              req_body = None \<rparr>]"
proof -
  let ?rt = "example_runtime (Response 200 ''{}'')"
  have u: "new_URL ?rt (client_baseUrl example_client @ ''/api/messages'') =
     Inr \<lparr> url_origin = ''http://localhost:8000'', url_path = [''api'', ''messages''],
           url_query = [], url_fragment = [] \<rparr>"
    by (simp add: example_base example_runtime_def example_new_URL_def Let_def)
  have z: "Number_toString ?rt Zero = ''0''"
    by (simp add: example_runtime_def)
  have l: "list_all2 (\<lambda>(k, v) (k', s). k' = k \<and> js_String ?rt v = Inr s)
            (filter (\<lambda>(k, v). v \<noteq> JUndefined \<and> v \<noteq> JNull)
               [(''has_media'', JBool False), (''page'', JNum Zero),
                (''topic'', JUndefined), (''language'', JNull)])
            [(''has_media'', ''false''), (''page'', ''0'')]"
    by (simp add: z)
  from query_string_entries [OF u, of _ "[(''has_media'', ''false''), (''page'', ''0'')]" Zero] l
  have "fst (get ?rt example_client ''/api/messages''
         (Some [(''has_media'', JBool False), (''page'', JNum Zero),
                (''topic'', JUndefined), (''language'', JNull)])) =
     NewURL (client_baseUrl example_client @ ''/api/messages'') #
     map (\<lambda>(k, s). SearchParamsAppend k s) [(''has_media'', ''false''), (''page'', ''0'')] @
     [Fetch \<lparr> req_method = GET,
              req_url = URL_toString ?rt
                (foldl (\<lambda>url (k, s). searchParams_append ?rt url k s)
                   \<lparr> url_origin = ''http://localhost:8000'', url_path = [''api'', ''messages''],
                     url_query = [], url_fragment = [] \<rparr>
                   [(''has_media'', ''false''), (''page'', ''0'')]),
              req_headers = client_headers example_client,
              req_body = None \<rparr>]"
    by blast
  then have "fst (get ?rt example_client ''/api/messages''
         (Some [(''has_media'', JBool False), (''page'', JNum Zero),
                (''topic'', JUndefined), (''language'', JNull)])) =
     [NewURL ''http://localhost:8000/api/messages'',
      SearchParamsAppend ''has_media'' ''false'',
      SearchParamsAppend ''page'' ''0'',
      Fetch \<lparr> req_method = GET,
              req_url = ''http://localhost:8000/api/messages?has_media=false&page=0'',
              req_headers = json_headers,
              req_body = None \<rparr>]"
    by (simp add: example_base example_headers example_runtime_def
        example_searchParams_append_def example_URL_toString_def)
  with u z show ?thesis
    by (intro conjI)
qed

section \<open>The calls of a request\<close>

lemma requests_append [simp]: "requests (xs @ ys) = requests xs @ requests ys"
  by (induction xs rule: requests.induct) simp_all

lemma constructed_append [simp]: "constructed (xs @ ys) = constructed xs @ constructed ys"
  by (induction xs rule: constructed.induct) simp_all

lemma append_params_calls:
  "requests (fst (append_params rt u ps)) = [] \<and>
   constructed (fst (append_params rt u ps)) = []"
  by (induction rt u ps rule: append_params.induct)
    (auto split: sum.split prod.split)

lemma get_request_calls:
  "requests (fst (get_request rt this endpoint params)) = [] \<and>
   constructed (fst (get_request rt this endpoint params)) = [client_baseUrl this @ endpoint]"
proof (cases params)
  case None
  then show ?thesis
    by (simp add: get_request_def split: sum.split)
next
  case (Some ps)
  show ?thesis
  proof (cases "new_URL rt (client_baseUrl this @ endpoint)")
    case (Inl msg)
    with Some show ?thesis
      by (simp add: get_request_def)
  next
    case (Inr u)
    obtain evs r where a: "append_params rt u ps = (evs, r)"
      by (cases "append_params rt u ps")
    with append_params_calls [of rt u ps]
    have "requests evs = []" and "constructed evs = []"
      by simp_all
    with Some Inr a show ?thesis
      by (cases r) (simp_all add: get_request_def)
  qed
qed

lemma get_request_GET:
  "get_request rt this endpoint params = (evs, Inr request) \<Longrightarrow> req_method request = GET"
  by (auto simp add: get_request_def split: sum.splits prod.splits option.splits)

lemma one_GET_get: "one_GET (get rt this endpoint params)"
proof (cases "get_request rt this endpoint params")
  case (Pair evs r)
  with get_request_calls [of rt this endpoint params] have e: "requests evs = []"
    by simp
  show ?thesis
  proof (cases r)
    case (Inl msg)
    with Pair e show ?thesis
      by (simp add: one_GET_def get_def)
  next
    case (Inr request)
    with Pair have "req_method request = GET"
      by (simp add: get_request_GET)
    with Pair Inr e show ?thesis
      by (simp add: one_GET_def get_def split: fetch_outcome.split)
  qed
qed

lemma constructed_get:
  "constructed (fst (get rt this endpoint params)) = [client_baseUrl this @ endpoint]"
proof (cases "get_request rt this endpoint params")
  case (Pair evs r)
  with get_request_calls [of rt this endpoint params]
  have "constructed evs = [client_baseUrl this @ endpoint]"
    by simp
  with Pair show ?thesis
    by (cases r) (simp_all add: get_def split: fetch_outcome.split)
qed

lemma post_calls:
  "fst (post rt this endpoint body) = [Fetch (post_request rt this endpoint body)]"
  by (simp add: post_def Let_def split: fetch_outcome.split)

lemma one_GET_interp:
  "one_GET (interp rt v k) = (\<forall>s. js_String rt v = Inr s \<longrightarrow> one_GET (k s))"
  by (simp add: interp_def one_GET_def split: sum.split)

lemma one_GET_reading:
  "one_GET (reading rt bag first k) = (\<forall>a. bag = Some a \<longrightarrow> one_GET (k a))"
  by (simp add: reading_def one_GET_def split: option.split)

section \<open>What \<open>get_entity\<close> requests\<close>

lemma handleToolCall_get_entity:
  "handleToolCall rt apiClient ''get_entity'' bag =
     reading rt bag ''source'' (\<lambda>args.
       getEntity rt apiClient (arg args ''source'') (arg args ''entity_id'')
         (Some [(''include_linked'', arg args ''include_linked'')]))"
  by (simp add: handleToolCall_def dispatch_cases_def)

text \<open>
  C8, as the code has it. For all strings \<open>source\<close> and \<open>entity_id\<close>, the tool
  \<open>get_entity\<close> called with the bag \<open>{source, entity_id}\<close> interpolates the two in
  sequence into the string \<open>baseUrl + /api/entities/<source>/<entity_id>\<close> and hands
  it to the URL constructor. When the constructor throws, nothing is requested; when it
  accepts, exactly one request is issued, a GET, for the URL that the constructor made
  of that string, with no search parameter appended. What the path of the request
  contains is decided by the constructor.
\<close>

theorem get_entity_request:
  "fst (handleToolCall rt apiClient ''get_entity''
          (Some [''source'' \<mapsto> JStr source, ''entity_id'' \<mapsto> JStr entity_id])) =
     NewURL (client_baseUrl apiClient @ ''/api/entities/'' @ source @ ''/'' @ entity_id) #
     (case new_URL rt
             (client_baseUrl apiClient @ ''/api/entities/'' @ source @ ''/'' @ entity_id) of
        Inl msg \<Rightarrow> []
      | Inr u \<Rightarrow>
          [Fetch \<lparr> req_method = GET,
                   req_url = URL_toString rt u,
                   req_headers = client_headers apiClient,
                   req_body = None \<rparr>])"
  by (simp add: handleToolCall_get_entity reading_def getEntity_def interp_def arg_def
      get_def get_request_def split: sum.split fetch_outcome.split)

text \<open>
  C8, as stated, fails: for the source \<open>curated\<close> and the entity id \<open>..\<close> the URL
  constructor resolves the dot segment, and the one GET goes to a URL that contains
  neither the source nor the entity id.
\<close>

theorem get_entity_path_counterexample:
  "fst (handleToolCall (example_runtime (Response 200 ''{}'')) example_client ''get_entity''
          (Some [''source'' \<mapsto> JStr ''curated'', ''entity_id'' \<mapsto> JStr ''..''])) =
     [NewURL ''http://localhost:8000/api/entities/curated/..'',
      Fetch \<lparr> req_method = GET,
              req_url = ''http://localhost:8000/api/entities/'',
              req_headers = json_headers,
              req_body = None \<rparr>] \<and>
   \<not> sublist ''curated'' ''http://localhost:8000/api/entities/'' \<and>
   \<not> sublist ''..'' ''http://localhost:8000/api/entities/''"
proof -
  let ?rt = "example_runtime (Response 200 ''{}'')"
  have u: "new_URL ?rt (''http://localhost:8000/api/entities/curated/..'') =
     Inr \<lparr> url_origin = ''http://localhost:8000'', url_path = [''api'', ''entities'', []],
           url_query = [], url_fragment = [] \<rparr>"
    by (simp add: example_runtime_def example_new_URL_def Let_def)
  have t: "URL_toString ?rt
      \<lparr> url_origin = ''http://localhost:8000'', url_path = [''api'', ''entities'', []],
        url_query = [], url_fragment = [] \<rparr> = ''http://localhost:8000/api/entities/''"
    by (simp add: example_runtime_def example_URL_toString_def)
  have f: "\<And>q. fetch ?rt q = Response 200 ''{}''"
    by (simp add: example_runtime_def)
  have "fst (handleToolCall ?rt example_client ''get_entity''
          (Some [''source'' \<mapsto> JStr ''curated'', ''entity_id'' \<mapsto> JStr ''..''])) =
     [NewURL ''http://localhost:8000/api/entities/curated/..'',
      Fetch \<lparr> req_method = GET,
              req_url = ''http://localhost:8000/api/entities/'',
              req_headers = json_headers,
              req_body = None \<rparr>]"
    by (simp add: handleToolCall_get_entity reading_def getEntity_def interp_def arg_def
        get_def get_request_def example_base example_headers u t f response_ok_def)
  moreover have "\<not> sublist ''curated'' ''http://localhost:8000/api/entities/''"
    by (simp add: sublist_Cons_right)
  moreover have "\<not> sublist ''..'' ''http://localhost:8000/api/entities/''"
    by (simp add: sublist_Cons_right)
  ultimately show ?thesis
    by (intro conjI)
qed

text \<open>
  In the first revision \<open>get_entity\<close> reads the entity id alone and the path has no
  source segment.
\<close>

lemma first_revision_get_entity:
  "handleToolCall_v1 rt apiClient ''get_entity'' (Some args) =
     interp rt (arg args ''entity_id'') (\<lambda>entityId_str.
       get rt apiClient (''/api/entities/'' @ entityId_str) None)"
  by (simp add: handleToolCall_v1_def dispatch_cases_v1_def reading_def getEntity_v1_def)

section \<open>Bindings and input schemas\<close>

lemma handleToolCall_get_message_timeline:
  "handleToolCall rt apiClient ''get_message_timeline'' bag =
     reading rt bag ''message_id'' (\<lambda>args.
       getMessageTimeline rt apiClient (arg args ''message_id'')
         (Some [(''before_count'', arg args ''before_count''),
                (''after_count'', arg args ''after_count''),
                (''same_channel_only'', arg args ''same_channel_only''),
                (''use_semantic'', arg args ''use_semantic''),
                (''use_events'', arg args ''use_events''),
                (''similarity_threshold'', arg args ''similarity_threshold'')]))"
  by (simp add: handleToolCall_def dispatch_cases_def)

lemma declared_fields_get_message_timeline:
  "declared_fields ''get_message_timeline'' =
     [''message_id'', ''before_count'', ''after_count'', ''same_channel_only'',
      ''use_semantic'', ''use_events'']"
  by (simp add: declared_fields_def tools_def)

text \<open>
  C9, at the input where the code departs from it. The schema of \<open>get_message_timeline\<close>
  does not declare \<open>similarity_threshold\<close>, yet the binding reads that field of the bag
  and forwards it: two bags that agree on every declared property lead to different
  requests.
\<close>

theorem get_message_timeline_forwards_undeclared_field:
  "''similarity_threshold'' \<notin> set (declared_fields ''get_message_timeline'') \<and>
   appended
     (fst (handleToolCall (example_runtime (Response 200 ''{}'')) example_client
        ''get_message_timeline''
        (Some [''message_id'' \<mapsto> JNum One, ''similarity_threshold'' \<mapsto> JNum Zero]))) =
     [(''similarity_threshold'', ''0'')] \<and>
   map req_url (requests
     (fst (handleToolCall (example_runtime (Response 200 ''{}'')) example_client
        ''get_message_timeline''
        (Some [''message_id'' \<mapsto> JNum One, ''similarity_threshold'' \<mapsto> JNum Zero])))) =
     [''http://localhost:8000/api/messages/1/timeline?similarity_threshold=0''] \<and>
   appended
     (fst (handleToolCall (example_runtime (Response 200 ''{}'')) example_client
        ''get_message_timeline''
        (Some [''message_id'' \<mapsto> JNum One]))) =
     [] \<and>
   map req_url (requests
     (fst (handleToolCall (example_runtime (Response 200 ''{}'')) example_client
        ''get_message_timeline''
        (Some [''message_id'' \<mapsto> JNum One])))) =
     [''http://localhost:8000/api/messages/1/timeline'']"
proof -
  let ?rt = "example_runtime (Response 200 ''{}'')"
  have n: "Number_toString ?rt = example_Number_toString"
    and a: "searchParams_append ?rt = example_searchParams_append"
    and t: "URL_toString ?rt = example_URL_toString"
    and f: "\<And>q. fetch ?rt q = Response 200 ''{}''"
    by (simp_all add: example_runtime_def)
  have u: "new_URL ?rt ''http://localhost:8000/api/messages/1/timeline'' =
     Inr \<lparr> url_origin = ''http://localhost:8000'',
           url_path = [''api'', ''messages'', ''1'', ''timeline''],
           url_query = [], url_fragment = [] \<rparr>"
    by (simp add: example_runtime_def example_new_URL_def Let_def)
  show ?thesis
    by (simp add: declared_fields_get_message_timeline handleToolCall_get_message_timeline
        reading_def getMessageTimeline_def interp_def arg_def get_def get_request_def
        example_base example_headers n a t f u response_ok_def
        example_searchParams_append_def example_URL_toString_def)
qed

text \<open>
  Every other binding respects the schema of its tool: cases and descriptors stand in the
  same order, and each case but that of \<open>get_message_timeline\<close> gives the same outcome
  on bags that agree on the declared properties.
\<close>

lemma bindings_respect_schemas:
  "list_all2 (\<lambda>(label, binding) t. label = tool_name t \<and>
       (label = ''get_message_timeline'' \<or> respects_schema t binding))
     dispatch_cases tools"
  unfolding dispatch_cases_def tools_def respects_schema_def
  by (simp add: reading_def arg_def)

lemma find_by_key:
  "distinct (map f xs) \<Longrightarrow> i < length xs \<Longrightarrow>
   find (\<lambda>x. f x = f (xs ! i)) xs = Some (xs ! i)"
proof (induction xs arbitrary: i)
  case Nil
  then show ?case by simp
next
  case (Cons x xs)
  show ?case
  proof (cases i)
    case 0
    then show ?thesis by simp
  next
    case (Suc j)
    with Cons.prems have j: "j < length xs" and d: "distinct (map f xs)"
      and nx: "f x \<notin> f ` set xs"
      by auto
    from j nx have "f x \<noteq> f (xs ! j)"
      by (metis imageI nth_mem)
    with Cons.IH [OF d j] Suc show ?thesis by simp
  qed
qed

lemma other_bindings_read_declared_only:
  fixes rt :: "('j, 'u, 'n) runtime"
  assumes "name \<noteq> ''get_message_timeline''"
    and "\<forall>k \<in> set (declared_fields name). a k = b k"
  shows "handleToolCall rt apiClient name (Some a) = handleToolCall rt apiClient name (Some b)"
proof (cases "map_of (dispatch_cases :: (string \<times> ('j, 'u, 'n) binding) list) name")
  case None
  then show ?thesis by (simp add: handleToolCall_def)
next
  case (Some binding)
  then have "(name, binding) \<in> set dispatch_cases"
    by (rule map_of_SomeD)
  then obtain i where i: "i < length (dispatch_cases :: (string \<times> ('j, 'u, 'n) binding) list)"
    and nth: "dispatch_cases ! i = (name, binding)"
    by (auto simp add: in_set_conv_nth)
  from bindings_respect_schemas [where ?'a = 'j and ?'b = 'u and ?'c = 'n] i nth
  have len: "i < length tools" and nm: "name = tool_name (tools ! i)"
    and ok: "name = ''get_message_timeline'' \<or> respects_schema (tools ! i) binding"
    by (auto simp add: list_all2_conv_all_nth)
  from find_by_key [OF tool_names_distinct, of i] len nm
  have "declared_fields name = map fst (properties (tools ! i))"
    by (simp add: declared_fields_def)
  with assms ok have "binding rt apiClient (Some a) = binding rt apiClient (Some b)"
    by (simp add: respects_schema_def)
  with Some show ?thesis by (simp add: handleToolCall_def)
qed

section \<open>Methods of the requests\<close>

lemma bindings_one_GET:
  "list_all (\<lambda>(label, binding). \<forall>rt apiClient bag. one_GET (binding rt apiClient bag))
     dispatch_cases"
  unfolding dispatch_cases_def client_defs
  by (simp add: one_GET_reading one_GET_interp one_GET_get)

lemma handleToolCall_one_GET:
  fixes rt :: "('j, 'u, 'n) runtime"
  shows "one_GET (handleToolCall rt apiClient name bag)"
proof (cases "map_of (dispatch_cases :: (string \<times> ('j, 'u, 'n) binding) list) name")
  case None
  then show ?thesis by (simp add: handleToolCall_def one_GET_def)
next
  case (Some binding)
  then have "(name, binding) \<in> set dispatch_cases"
    by (rule map_of_SomeD)
  with bindings_one_GET [where ?'a = 'j and ?'b = 'u and ?'c = 'n]
  have "one_GET (binding rt apiClient bag)"
    by (auto simp add: list_all_iff)
  with Some show ?thesis by (simp add: handleToolCall_def)
qed

lemma client_methods_one_GET:
  "list_all (\<lambda>m. one_GET (m rt apiClient))
           [getEventStats, getMediaAnalytics, getAdminDashboard, getAdminStatsOverview,
            getAdminStatsQuality, getAdminStatsStorage, getAdminWorkersStats,
            getAdminEnrichmentTasks, getAdminCacheStats, getAdminAuditStats,
            getAdminSpamStats, getAdminChannelsStats, getAdminEntitiesStats,
            getAdminFeedsStats, getAdminPromptsStats, getAdminCommentsStats,
            getAdminViralPosts, getHealth, getHardwareConfig, getSystemStatus,
            getMetricsOverview, getMetricsLLM, getMetricsPipeline, getMetricsServices,
            listModels, getModelHealth] \<and>
         list_all (\<lambda>m. one_GET (m rt apiClient params))
           [getTags, listChannels, getInfluenceNetwork, getTopForwarded,
            getTopInfluencers, listEvents, getTimelineStats, getTopicDistribution,
            getLanguageDistribution, getChannelAnalytics, getHeatmap,
            getEntityAnalytics, getMapMessages, getMapClusters, getMapEvents,
            getMapHeatmap, getUnifiedStream, getMediaGallery, getAdminStatsProcessing] \<and>
         list_all (\<lambda>m. one_GET (m rt apiClient ps))
           [searchMessages, semanticSearch, searchByTags, unifiedSearch, searchEntities,
            suggestLocations, reverseGeocode] \<and>
         list_all (\<lambda>m. one_GET (m rt apiClient v))
           [getMessage, getAdjacentMessages, getMessageAlbum, getChannel,
            getChannelStats, getChannelInfluence, getEngagementTimeline,
            getEventTimeline, getEventsForMessage, validateMessage, getCorrelations,
            getComment] \<and>
         list_all (\<lambda>m. one_GET (m rt apiClient v params))
           [getMessageNetwork, getMessageTimeline, findSimilarMessages,
            getChannelNetwork, getMessageSocialGraph, getMessageComments, getEvent] \<and>
         list_all (\<lambda>m. one_GET (m rt apiClient v w params))
           [getEntity, getEntityRelationships, getEntityMessages]"
  unfolding client_defs
  by (simp add: one_GET_interp one_GET_get)

lemma endpoints_distinct:
  "distinct (map (\<lambda>(label, binding).
      constructed (fst (binding rt apiClient (Some Map.empty)))) dispatch_cases)"
  unfolding dispatch_cases_def client_defs
  by (simp add: reading_def arg_def interp_def constructed_get)

lemma endpoints_single:
  "list_all (\<lambda>(label, binding).
      length (constructed (fst (binding rt apiClient (Some Map.empty)))) = 1) dispatch_cases"
  unfolding dispatch_cases_def client_defs
  by (simp add: reading_def arg_def interp_def constructed_get)

text \<open>
  C7, as the code has it. Whatever the tool name and the bag, the dispatcher issues at
  most one request and that request is a GET. Of the 75 operations of the client, 74
  issue at most one request, a GET, whatever their arguments; the remaining one,
  \<open>translateComment\<close>, issues one POST, to \<open>/api/comments/<id>/translate\<close> appended
  to the base URL, when its argument converts to a string, so that by the first part
  no tool name reaches it. Called with an empty bag, each of the 71 bindings constructs
  exactly one URL, from the base URL and the endpoint path of the binding, and these 71
  strings are pairwise different.
\<close>

theorem dispatcher_issues_GET_only:
  fixes rt :: "('j, 'u, 'n) runtime"
  shows "one_GET (handleToolCall rt apiClient name bag) \<and>
         list_all (\<lambda>m. one_GET (m rt apiClient))
           [getEventStats, getMediaAnalytics, getAdminDashboard, getAdminStatsOverview,
            getAdminStatsQuality, getAdminStatsStorage, getAdminWorkersStats,
            getAdminEnrichmentTasks, getAdminCacheStats, getAdminAuditStats,
            getAdminSpamStats, getAdminChannelsStats, getAdminEntitiesStats,
            getAdminFeedsStats, getAdminPromptsStats, getAdminCommentsStats,
            getAdminViralPosts, getHealth, getHardwareConfig, getSystemStatus,
            getMetricsOverview, getMetricsLLM, getMetricsPipeline, getMetricsServices,
            listModels, getModelHealth] \<and>
         list_all (\<lambda>m. one_GET (m rt apiClient params))
           [getTags, listChannels, getInfluenceNetwork, getTopForwarded,
            getTopInfluencers, listEvents, getTimelineStats, getTopicDistribution,
            getLanguageDistribution, getChannelAnalytics, getHeatmap,
            getEntityAnalytics, getMapMessages, getMapClusters, getMapEvents,
            getMapHeatmap, getUnifiedStream, getMediaGallery, getAdminStatsProcessing] \<and>
         list_all (\<lambda>m. one_GET (m rt apiClient ps))
           [searchMessages, semanticSearch, searchByTags, unifiedSearch, searchEntities,
            suggestLocations, reverseGeocode] \<and>
         list_all (\<lambda>m. one_GET (m rt apiClient v))
           [getMessage, getAdjacentMessages, getMessageAlbum, getChannel,
            getChannelStats, getChannelInfluence, getEngagementTimeline,
            getEventTimeline, getEventsForMessage, validateMessage, getCorrelations,
            getComment] \<and>
         list_all (\<lambda>m. one_GET (m rt apiClient v params))
           [getMessageNetwork, getMessageTimeline, findSimilarMessages,
            getChannelNetwork, getMessageSocialGraph, getMessageComments, getEvent] \<and>
         list_all (\<lambda>m. one_GET (m rt apiClient v w params))
           [getEntity, getEntityRelationships, getEntityMessages] \<and>
         (js_String rt commentId = Inr s \<longrightarrow>
            fst (translateComment rt apiClient commentId) =
              [Fetch \<lparr> req_method = POST,
                       req_url = client_baseUrl apiClient @ ''/api/comments/'' @ s @
                                   ''/translate'',
                       req_headers = client_headers apiClient,
                       req_body = None \<rparr>]) \<and>
         list_all (\<lambda>(label, binding).
             length (constructed (fst (binding rt apiClient (Some Map.empty)))) = 1)
           (dispatch_cases :: (string \<times> ('j, 'u, 'n) binding) list) \<and>
         distinct (map (\<lambda>(label, binding).
             constructed (fst (binding rt apiClient (Some Map.empty))))
           (dispatch_cases :: (string \<times> ('j, 'u, 'n) binding) list))"
  using handleToolCall_one_GET [of rt apiClient name bag]
    client_methods_one_GET [of rt apiClient params ps v w]
    endpoints_single [of rt apiClient] endpoints_distinct [of rt apiClient]
  by (simp add: translateComment_def interp_def post_calls post_request_def)

theorem dispatcher_issues_GET_only_witness:
  "js_String (example_runtime (Response 200 ''{}'')) (JNum Seven) = Inr ''7'' \<and>
   fst (translateComment (example_runtime (Response 200 ''{}'')) example_client (JNum Seven)) =
     [Fetch \<lparr> req_method = POST,
              req_url = ''http://localhost:8000/api/comments/7/translate'',
              req_headers = json_headers,
              req_body = None \<rparr>] \<and>
   one_GET (handleToolCall (example_runtime (Response 200 ''{}'')) example_client
     ''get_system_health'' None) \<and>
   fst (handleToolCall (example_runtime (Response 200 ''{}'')) example_client
     ''get_system_health'' None) =
     [NewURL ''http://localhost:8000/health'',
      Fetch \<lparr> req_method = GET,
              req_url = ''http://localhost:8000/health'',
              req_headers = json_headers,
              req_body = None \<rparr>] \<and>
   distinct (map (\<lambda>(label, binding).
       constructed (fst (binding (example_runtime (Response 200 ''{}'')) example_client
         (Some Map.empty))))
     (dispatch_cases :: (string \<times> (string, example_URL, example_number) binding) list))"
proof -
  let ?rt = "example_runtime (Response 200 ''{}'')"
  have s: "js_String ?rt (JNum Seven) = Inr ''7''"
    by (simp add: example_runtime_def)
  note th = dispatcher_issues_GET_only [of ?rt example_client "''get_system_health''" None
      _ _ _ _ "JNum Seven" "''7''"]
  from th s have "fst (translateComment ?rt example_client (JNum Seven)) =
     [Fetch \<lparr> req_method = POST,
              req_url = client_baseUrl example_client @ ''/api/comments/'' @ ''7'' @
                          ''/translate'',
              req_headers = client_headers example_client,
              req_body = None \<rparr>]"
    by blast
  then have p: "fst (translateComment ?rt example_client (JNum Seven)) =
     [Fetch \<lparr> req_method = POST,
              req_url = ''http://localhost:8000/api/comments/7/translate'',
              req_headers = json_headers,
              req_body = None \<rparr>]"
    by (simp add: example_base example_headers)
  from th have o: "one_GET (handleToolCall ?rt example_client ''get_system_health'' None)"
    by blast
  from th have d: "distinct (map (\<lambda>(label, binding).
       constructed (fst (binding ?rt example_client (Some Map.empty))))
     (dispatch_cases :: (string \<times> (string, example_URL, example_number) binding) list))"
    by blast
  have "handleToolCall ?rt example_client ''get_system_health'' None =
          getHealth ?rt example_client"
    by (simp add: handleToolCall_def dispatch_cases_def)
  then have g: "fst (handleToolCall ?rt example_client ''get_system_health'' None) =
     [NewURL ''http://localhost:8000/health'',
      Fetch \<lparr> req_method = GET,
              req_url = ''http://localhost:8000/health'',
              req_headers = json_headers,
              req_body = None \<rparr>]"
    by (simp add: getHealth_def get_def get_request_def example_base example_headers
        example_runtime_def example_new_URL_def example_URL_toString_def Let_def
        response_ok_def)
  from s p o g d show ?thesis
    by (intro conjI)
qed

text \<open>
  C7, as stated, fails: no tool name and no bag make the dispatcher issue a POST.
\<close>

theorem no_tool_issues_POST:
  "\<not> (\<exists>name bag. POST \<in> req_method ` set (requests (fst (handleToolCall
         (example_runtime (Response 200 ''{}'')) example_client name bag))))"
proof
  assume "\<exists>name bag. POST \<in> req_method ` set (requests (fst (handleToolCall
         (example_runtime (Response 200 ''{}'')) example_client name bag)))"
  then obtain name bag r
    where r: "r \<in> set (requests (fst (handleToolCall (example_runtime (Response 200 ''{}''))
                example_client name bag)))"
      and p: "req_method r = POST"
    by auto
  from handleToolCall_one_GET [of "example_runtime (Response 200 ''{}'')" example_client name bag] r
  have "req_method r = GET"
    by (simp add: one_GET_def list_all_iff)
  with p show False by simp
qed

section \<open>What the server serves\<close>

text \<open>
  C6, as the code has it. The server registers two handlers, for listing the tools and
  for calling one; a request to list or read resources, or to list or get prompts, finds
  no handler and is answered with method-not-found. The resource and prompt tables are
  exported lookups that no handler calls.
\<close>

theorem server_serves_tools_only:
  "map fst server = [ListToolsRequestSchema, CallToolRequestSchema] \<and>
   serve rt apiClient ListTools = ([], ToolList tools) \<and>
   serve rt apiClient ListResources = ([], MethodNotFound) \<and>
   serve rt apiClient (ReadResource uri) = ([], MethodNotFound) \<and>
   serve rt apiClient ListPrompts = ([], MethodNotFound) \<and>
   serve rt apiClient (GetPrompt name args) = ([], MethodNotFound)"
  by (simp add: server_def serve_def listToolsHandler_def)

text \<open>
  C6, as stated, fails: the four request kinds for resources and prompts have no handler,
  and each such request is refused.
\<close>

theorem resources_and_prompts_not_served:
  "ListResourcesRequestSchema \<notin> fst ` set (server ::
      (request_schema \<times> ((string, example_URL, example_number) runtime \<Rightarrow> client \<Rightarrow>
        example_number mcp_request \<Rightarrow> event list \<times> mcp_response)) list) \<and>
   serve (example_runtime (Response 200 ''{}'')) example_client ListResources =
     ([], MethodNotFound) \<and>
   serve (example_runtime (Response 200 ''{}'')) example_client
       (ReadResource ''osint://guide/getting-started'') = ([], MethodNotFound) \<and>
   serve (example_runtime (Response 200 ''{}'')) example_client ListPrompts =
     ([], MethodNotFound) \<and>
   serve (example_runtime (Response 200 ''{}'')) example_client
       (GetPrompt ''investigate_entity'' [''entity_name'' \<mapsto> ''X'']) = ([], MethodNotFound)"
  by (simp add: server_def serve_def)

section \<open>Prompts\<close>

lemma prompt_investigate_entity_cong:
  "a ''entity_name'' = b ''entity_name'' \<Longrightarrow> a ''entity_type'' = b ''entity_type'' \<Longrightarrow>
   prompt_investigate_entity a = prompt_investigate_entity b"
  by (simp add: prompt_investigate_entity_def)

lemma prompt_validate_claim_cong:
  "a ''message_id'' = b ''message_id'' \<Longrightarrow>
   prompt_validate_claim a = prompt_validate_claim b"
  by (simp add: prompt_validate_claim_def)

lemma prompt_track_event_cong:
  "a ''event_id'' = b ''event_id'' \<Longrightarrow> a ''search_query'' = b ''search_query'' \<Longrightarrow>
   prompt_track_event a = prompt_track_event b"
  by (simp add: prompt_track_event_def)

lemma prompt_analyze_channel_cong:
  "a ''channel_id'' = b ''channel_id'' \<Longrightarrow>
   prompt_analyze_channel a = prompt_analyze_channel b"
  by (simp add: prompt_analyze_channel_def)

lemma prompt_trace_narrative_cong:
  "a ''message_id'' = b ''message_id'' \<Longrightarrow> a ''search_query'' = b ''search_query'' \<Longrightarrow>
   prompt_trace_narrative a = prompt_trace_narrative b"
  by (simp add: prompt_trace_narrative_def)

lemma prompt_daily_briefing_cong:
  "a ''hours'' = b ''hours'' \<Longrightarrow> a ''focus_topic'' = b ''focus_topic'' \<Longrightarrow>
   prompt_daily_briefing a = prompt_daily_briefing b"
  by (simp add: prompt_daily_briefing_def)

lemma prompt_geographic_sitrep_cong:
  "a ''location'' = b ''location'' \<Longrightarrow> a ''days'' = b ''days'' \<Longrightarrow>
   prompt_geographic_sitrep a = prompt_geographic_sitrep b"
  by (simp add: prompt_geographic_sitrep_def)

lemma prompt_platform_health_check_cong:
  "prompt_platform_health_check a = prompt_platform_health_check b"
  by (simp add: prompt_platform_health_check_def)

lemma prompt_find_viral_content_cong:
  "a ''days'' = b ''days'' \<Longrightarrow> a ''topic'' = b ''topic'' \<Longrightarrow>
   prompt_find_viral_content a = prompt_find_viral_content b"
  by (simp add: prompt_find_viral_content_def)

lemma prompt_discover_connections_cong:
  "a ''start_entity'' = b ''start_entity'' \<Longrightarrow> a ''start_channel'' = b ''start_channel'' \<Longrightarrow>
   prompt_discover_connections a = prompt_discover_connections b"
  by (simp add: prompt_discover_connections_def)

text \<open>
  C10. The output of \<open>getPromptContent\<close> depends only on the argument keys that the
  template of the named prompt reads: two argument records that agree on those keys give
  the same string, whatever other keys they hold. An unknown name reads no key.
\<close>

theorem prompt_depends_on_referenced_keys:
  assumes "\<forall>k \<in> set (referenced_keys name). a k = b k"
  shows "getPromptContent name a = getPromptContent name b"
  using assms
  by (auto simp add: getPromptContent_def referenced_keys_def
      prompt_investigate_entity_cong [of a b]
      prompt_validate_claim_cong [of a b]
      prompt_track_event_cong [of a b]
      prompt_analyze_channel_cong [of a b]
      prompt_trace_narrative_cong [of a b]
      prompt_daily_briefing_cong [of a b]
      prompt_geographic_sitrep_cong [of a b]
      prompt_platform_health_check_cong [of a b]
      prompt_find_viral_content_cong [of a b]
      prompt_discover_connections_cong [of a b]
      split: if_splits)

theorem prompt_depends_on_referenced_keys_witness:
  "referenced_keys ''investigate_entity'' = [''entity_name'', ''entity_type''] \<and>
   getPromptContent ''investigate_entity''
      [''entity_name'' \<mapsto> ''Wagner'', ''entity_type'' \<mapsto> ''organization'',
       ''note'' \<mapsto> ''x''] =
   getPromptContent ''investigate_entity''
      [''entity_type'' \<mapsto> ''organization'', ''days'' \<mapsto> ''7'',
       ''entity_name'' \<mapsto> ''Wagner'']"
proof -
  have k: "referenced_keys ''investigate_entity'' = [''entity_name'', ''entity_type'']"
    by (simp add: referenced_keys_def)
  have h: "\<forall>k \<in> set (referenced_keys ''investigate_entity'').
      [''entity_name'' \<mapsto> ''Wagner'', ''entity_type'' \<mapsto> ''organization'',
       ''note'' \<mapsto> ''x''] k =
      [''entity_type'' \<mapsto> ''organization'', ''days'' \<mapsto> ''7'',
       ''entity_name'' \<mapsto> ''Wagner''] k"
    by (simp add: k)
  from k prompt_depends_on_referenced_keys [OF h] show ?thesis
    by (rule conjI)
qed

end
